theory Spec2Isabelle
  imports Complex_Main
begin

section \<open>Numbers\<close>

text \<open>
  The samples of a pandas Series and the results of NumPy reductions are float64
  values. NumPy arithmetic never raises: a division by zero gives an infinity or
  a nan, and both propagate. The model keeps these three non-finite values and
  takes the finite ones as real numbers, so rounding and overflow are idealised
  away and zero carries no sign (a zero divisor counts as +0).

  The attributes that the caller stores on the ModelChain and the entries of the
  module parameter dictionary are plain Python numbers, modelled as reals.
  Python's own division raises ZeroDivisionError on a zero divisor.
\<close>

datatype npfloat = Fin real | PInf | NInf | NaN

datatype py_error =
  ZeroDivisionError | KeyError | AttributeError | ValueError | TypeError
  | UnknownTimeZoneError

fun is_fin :: "npfloat \<Rightarrow> bool" where
  "is_fin (Fin _) = True"
| "is_fin _ = False"

fun nneg :: "npfloat \<Rightarrow> npfloat" where
  "nneg (Fin a) = Fin (- a)"
| "nneg PInf = NInf"
| "nneg NInf = PInf"
| "nneg NaN = NaN"

fun nadd :: "npfloat \<Rightarrow> npfloat \<Rightarrow> npfloat" where
  "nadd (Fin a) (Fin b) = Fin (a + b)"
| "nadd NaN _ = NaN"
| "nadd _ NaN = NaN"
| "nadd PInf NInf = NaN"
| "nadd NInf PInf = NaN"
| "nadd PInf _ = PInf"
| "nadd _ PInf = PInf"
| "nadd NInf _ = NInf"
| "nadd _ NInf = NInf"

definition nsub :: "npfloat \<Rightarrow> npfloat \<Rightarrow> npfloat" where
  "nsub x y = nadd x (nneg y)"

fun nmul :: "npfloat \<Rightarrow> npfloat \<Rightarrow> npfloat" where
  "nmul (Fin a) (Fin b) = Fin (a * b)"
| "nmul NaN _ = NaN"
| "nmul _ NaN = NaN"
| "nmul (Fin a) y = (if a = 0 then NaN else if 0 < a then y else nneg y)"
| "nmul x (Fin b) = (if b = 0 then NaN else if 0 < b then x else nneg x)"
| "nmul PInf y = y"
| "nmul NInf y = nneg y"

fun ndiv :: "npfloat \<Rightarrow> npfloat \<Rightarrow> npfloat" where
  "ndiv NaN _ = NaN"
| "ndiv _ NaN = NaN"
| "ndiv (Fin a) (Fin b) =
     (if b = 0 then (if a = 0 then NaN else if 0 < a then PInf else NInf)
      else Fin (a / b))"
| "ndiv (Fin a) _ = Fin 0"
| "ndiv x (Fin b) = (if b < 0 then nneg x else x)"
| "ndiv _ _ = NaN"

fun nlt :: "npfloat \<Rightarrow> npfloat \<Rightarrow> bool" where
  "nlt (Fin a) (Fin b) = (a < b)"
| "nlt NInf (Fin _) = True"
| "nlt NInf PInf = True"
| "nlt (Fin _) PInf = True"
| "nlt _ _ = False"

definition py_div :: "real \<Rightarrow> real \<Rightarrow> py_error + real" where
  "py_div a b = (if b = 0 then Inl ZeroDivisionError else Inr (a / b))"

section \<open>Series\<close>

text \<open>
  Every Series of a run carries the index of the weather frame, so a Series is
  the list of its samples in index order and an operation on two Series acts on
  the samples at equal positions.
\<close>

type_synonym series = "npfloat list"

definition ser_add :: "series \<Rightarrow> series \<Rightarrow> series" where
  "ser_add xs ys = map2 nadd xs ys"

definition ser_sub :: "series \<Rightarrow> series \<Rightarrow> series" where
  "ser_sub xs ys = map2 nsub xs ys"

definition ser_mul :: "series \<Rightarrow> series \<Rightarrow> series" where
  "ser_mul xs ys = map2 nmul xs ys"

definition ser_add_c :: "series \<Rightarrow> real \<Rightarrow> series" where
  "ser_add_c xs c = map (\<lambda>x. nadd x (Fin c)) xs"

definition ser_sub_c :: "series \<Rightarrow> real \<Rightarrow> series" where
  "ser_sub_c xs c = map (\<lambda>x. nsub x (Fin c)) xs"

definition c_sub_ser :: "real \<Rightarrow> series \<Rightarrow> series" where
  "c_sub_ser c xs = map (\<lambda>x. nsub (Fin c) x) xs"

definition ser_mul_c :: "series \<Rightarrow> real \<Rightarrow> series" where
  "ser_mul_c xs c = map (\<lambda>x. nmul x (Fin c)) xs"

definition c_mul_ser :: "real \<Rightarrow> series \<Rightarrow> series" where
  "c_mul_ser c xs = map (\<lambda>x. nmul (Fin c) x) xs"

definition ser_div_c :: "series \<Rightarrow> real \<Rightarrow> series" where
  "ser_div_c xs c = map (\<lambda>x. ndiv x (Fin c)) xs"

definition ser_pow2 :: "series \<Rightarrow> series" where
  "ser_pow2 xs = map (\<lambda>x. nmul x x) xs"

text \<open>\<^verbatim>\<open>s[s < 0] = 0\<close>: a nan compares false and stays.\<close>

definition zero_negatives :: "series \<Rightarrow> series" where
  "zero_negatives xs = map (\<lambda>x. if nlt x (Fin 0) then Fin 0 else x) xs"

text \<open>\<^verbatim>\<open>s.fillna(0)\<close> replaces nan, and nothing else.\<close>

definition fillna0 :: "series \<Rightarrow> series" where
  "fillna0 xs = map (\<lambda>x. if x = NaN then Fin 0 else x) xs"

text \<open>\<^verbatim>\<open>s.sum()\<close> skips nan samples; the sum of no samples is 0.\<close>

definition ser_sum :: "series \<Rightarrow> npfloat" where
  "ser_sum xs = foldl nadd (Fin 0) (filter (\<lambda>x. x \<noteq> NaN) xs)"

section \<open>Data model\<close>

text \<open>
  The PVSystem object that \<^verbatim>\<open>get_system\<close> builds. The two library
  constructors are outside the repository: a field that the chosen constructor
  is not given is \<open>None\<close>, and what the constructor leaves in the attribute
  \<^verbatim>\<open>albedo\<close> is a parameter of \<^verbatim>\<open>get_system\<close> (\<open>None\<close>: no such attribute).
\<close>

record pvsystem =
  single_axis_tracker :: bool
  axis_tilt :: "real option"
  max_angle :: "real option"
  axis_azimuth :: real
  backtrack :: bool
  gcr :: real
  surface_tilt :: "real option"
  surface_azimuth :: "real option"
  module_parameters :: "string \<rightharpoonup> real"
  albedo :: "real option"
  axis_height :: real
  collector_width :: real
  temperature_model_parameters :: "string \<rightharpoonup> real"

record location =
  latitude :: real
  longitude :: real
  loc_tz :: int
  altitude :: int
  loc_name :: string

record dc_frame =
  pdc :: series
  losses_dc :: series
  output_dc :: series
  clipping_dc :: series

record ac_frame =
  pac :: series
  output_ac :: series
  losses_ac :: series
  clipping_ac :: series

record plant_frame =
  output_plant :: series
  losses_plant :: series

text \<open>
  The ModelChain instance that every stage receives as \<^verbatim>\<open>self\<close> and returns
  updated. An attribute that no stage has assigned yet is \<open>None\<close>; reading it
  raises AttributeError.
\<close>

record modelchain =
  system :: pvsystem
  location :: location
  degradation_loss :: real
  bifacial_losses :: real
  dc_losses :: real
  ac_capacity :: real
  inverter_efficiency_peak :: real
  pmt_peak_loss :: real
  pmt_rating :: real
  pmt_constant_loss :: real
  ac_collection :: real
  mpt_peak_loss :: real
  mpt_bottom_rating :: real
  mpt_constant_loss :: real
  transmission_loss :: real
  poi_capacity :: real
  plant_losses :: real
  time_step :: real
  dc_capacity :: real
  effective_irradiance :: "series option"
  back_irradiance :: "series option"
  front_irradiance :: "series option"
  effective_irradiance_bifacial :: "series option"
  soiling :: "series option"
  effective_irradiance_soiled :: "series option"
  dc :: "dc_frame option"
  ac :: "ac_frame option"
  plant :: "plant_frame option"
  aep :: "npfloat option"
  ncf :: "npfloat option"
  energy_yield :: "npfloat option"
  pr :: "npfloat option"

text \<open>
  The weather DataFrame of the caller. Its index is a DatetimeIndex: the stamps
  are minutes, wall-clock minutes when the index is naive (\<open>tz = None\<close>) and
  minutes of UTC when it is aware. Besides its columns a DataFrame has the plain
  Python attributes that were set on the object.
\<close>

record dt_index =
  stamps :: "int list"
  tz :: "string option"

record weather =
  index :: dt_index
  columns :: "string \<rightharpoonup> series"
  attrs :: "string \<rightharpoonup> real"

section \<open>Construction\<close>

definition get_system ::
  "real option \<Rightarrow> string \<Rightarrow> real \<Rightarrow> real \<Rightarrow> real \<Rightarrow> real \<Rightarrow> (string \<rightharpoonup> real) \<Rightarrow>
   (string \<rightharpoonup> real) \<Rightarrow> real \<Rightarrow> real \<Rightarrow> bool \<Rightarrow> real \<Rightarrow> real \<Rightarrow> real \<Rightarrow> pvsystem" where
  "get_system lib_albedo racking axis_height' collector_width' axis_azimuth' gcr'
     module_parameters' temperature_model_parameters' axis_tilt' max_angle' backtrack'
     surface_tilt' surface_azimuth' albedo' =
   (let system =
      (if racking = ''tracker'' then
         \<lparr>single_axis_tracker = True, axis_tilt = Some axis_tilt',
          max_angle = Some max_angle', axis_azimuth = axis_azimuth',
          backtrack = backtrack', gcr = gcr', surface_tilt = None,
          surface_azimuth = None, module_parameters = module_parameters',
          albedo = lib_albedo, axis_height = 0, collector_width = 0,
          temperature_model_parameters = Map.empty\<rparr>
       else
         (let system =
            \<lparr>single_axis_tracker = False, axis_tilt = None, max_angle = None,
             axis_azimuth = axis_azimuth', backtrack = False, gcr = gcr',
             surface_tilt = Some surface_tilt',
             surface_azimuth = Some surface_azimuth',
             module_parameters = module_parameters', albedo = lib_albedo,
             axis_height = 0, collector_width = 0,
             temperature_model_parameters = Map.empty\<rparr>;
            system =
              (if racking \<noteq> ''ground-mount'' then system\<lparr>albedo := Some albedo'\<rparr>
               else system);
            system =
              (if racking = ''rooftop''
               then system\<lparr>module_parameters :=
                      (module_parameters system)(''bifaciality'' \<mapsto> 0)\<rparr>
               else system)
          in system))
    in system\<lparr>axis_height := axis_height', collector_width := collector_width',
         temperature_model_parameters := temperature_model_parameters'\<rparr>)"

definition get_modelchain ::
  "real \<Rightarrow> real \<Rightarrow> int \<Rightarrow> int \<Rightarrow> string \<Rightarrow> pvsystem \<Rightarrow> real \<Rightarrow> real \<Rightarrow> real \<Rightarrow> real \<Rightarrow>
   real \<Rightarrow> real \<Rightarrow> real \<Rightarrow> real \<Rightarrow> real \<Rightarrow> real \<Rightarrow> real \<Rightarrow> real \<Rightarrow> real \<Rightarrow> real \<Rightarrow> real \<Rightarrow>
   real \<Rightarrow> py_error + modelchain" where
  "get_modelchain lat lon utc_offset elevation name system' degradation_loss'
     bifacial_losses' dc_losses' ac_capacity' inverter_efficiency_peak'
     pmt_peak_loss' pmt_rating' pmt_constant_loss' ac_collection' mpt_peak_loss'
     mpt_bottom_rating' mpt_constant_loss' transmission_loss' poi_capacity'
     plant_losses' time_step' =
   (case module_parameters system' ''pdc0'' of
      None \<Rightarrow> Inl KeyError
    | Some pdc0 \<Rightarrow>
        Inr \<lparr>system = system',
             location = \<lparr>latitude = lat, longitude = lon, loc_tz = utc_offset,
                         altitude = elevation, loc_name = name\<rparr>,
             degradation_loss = degradation_loss',
             bifacial_losses = bifacial_losses', dc_losses = dc_losses',
             ac_capacity = ac_capacity',
             inverter_efficiency_peak = inverter_efficiency_peak',
             pmt_peak_loss = pmt_peak_loss', pmt_rating = pmt_rating',
             pmt_constant_loss = pmt_constant_loss',
             ac_collection = ac_collection', mpt_peak_loss = mpt_peak_loss',
             mpt_bottom_rating = mpt_bottom_rating',
             mpt_constant_loss = mpt_constant_loss',
             transmission_loss = transmission_loss',
             poi_capacity = poi_capacity', plant_losses = plant_losses',
             time_step = time_step', dc_capacity = pdc0,
             effective_irradiance = None, back_irradiance = None,
             front_irradiance = None, effective_irradiance_bifacial = None,
             soiling = None, effective_irradiance_soiled = None,
             dc = None, ac = None, plant = None,
             aep = None, ncf = None, energy_yield = None, pr = None\<rparr>)"

section \<open>Preparing the weather frame\<close>

text \<open>Python's \<^verbatim>\<open>str\<close> of an integer.\<close>

function str_nat :: "nat \<Rightarrow> string" where
  "str_nat n =
     (if n < 10 then [''0123456789'' ! n]
      else str_nat (n div 10) @ [''0123456789'' ! (n mod 10)])"
  by pat_completeness auto
termination
  by (relation "measure id") auto

declare str_nat.simps [simp del]

definition str_int :: "int \<Rightarrow> string" where
  "str_int i = (if i < 0 then CHR ''-'' # str_nat (nat (- i)) else str_nat (nat i))"

text \<open>
  The two pandas index operations. The time zone database is outside the
  repository and is a parameter: \<open>tzdb name\<close> is the offset from UTC in minutes
  of the fixed-offset zone \<open>name\<close>, \<open>None\<close> for a name that is no zone.
  \<^verbatim>\<open>tz_localize\<close> wants a naive index and keeps its wall-clock readings;
  \<^verbatim>\<open>tz_convert\<close> wants an aware index and keeps its instants.
\<close>

definition tz_localize :: "(string \<rightharpoonup> int) \<Rightarrow> string \<Rightarrow> dt_index \<Rightarrow> py_error + dt_index" where
  "tz_localize tzdb name idx =
     (case tz idx of
        Some _ \<Rightarrow> Inl TypeError
      | None \<Rightarrow>
          (case tzdb name of
             None \<Rightarrow> Inl UnknownTimeZoneError
           | Some off \<Rightarrow>
               Inr \<lparr>stamps = map (\<lambda>w. w - off) (stamps idx), tz = Some name\<rparr>))"

definition tz_convert :: "(string \<rightharpoonup> int) \<Rightarrow> string \<Rightarrow> dt_index \<Rightarrow> py_error + dt_index" where
  "tz_convert tzdb name idx =
     (case tz idx of
        None \<Rightarrow> Inl TypeError
      | Some _ \<Rightarrow>
          (case tzdb name of
             None \<Rightarrow> Inl UnknownTimeZoneError
           | Some off \<Rightarrow> Inr (idx\<lparr>tz := Some name\<rparr>)))"

text \<open>
  \<^verbatim>\<open>weather.albedo = v\<close>: pandas sets the plain attribute when the object
  has one of that name, assigns to the column of that name when the frame has
  one, and sets a new plain attribute otherwise.
\<close>

definition set_albedo :: "real \<Rightarrow> weather \<Rightarrow> weather" where
  "set_albedo v w =
     (if attrs w ''albedo'' \<noteq> None then w\<lparr>attrs := (attrs w)(''albedo'' \<mapsto> v)\<rparr>
      else if columns w ''albedo'' \<noteq> None
      then w\<lparr>columns := (columns w)(''albedo'' \<mapsto>
                replicate (length (stamps (index w))) (Fin v))\<rparr>
      else w\<lparr>attrs := (attrs w)(''albedo'' \<mapsto> v)\<rparr>)"

text \<open>
  Lines 282 to 295 of \<^verbatim>\<open>get_effective_irradiance\<close>. The result is the
  exception raised, if any, and the caller's weather frame as the call leaves it.
\<close>

definition prepare_weather ::
  "(string \<rightharpoonup> int) \<Rightarrow> modelchain \<Rightarrow> weather \<Rightarrow> int \<Rightarrow> py_error option \<times> weather" where
  "prepare_weather tzdb self weather utc_offset =
     (let tz' = ''Etc/GMT+'' @ str_int (- utc_offset) in
      case (if tz (index weather) = None
            then tz_localize tzdb tz' (index weather)
            else tz_convert tzdb tz' (index weather)) of
        Inl e \<Rightarrow> (Some e, weather)
      | Inr idx \<Rightarrow>
          (let weather = weather\<lparr>index := idx\<rparr> in
           case albedo (system self) of
             None \<Rightarrow> (None, weather)
           | Some v \<Rightarrow> (None, set_albedo v weather)))"

section \<open>Effective irradiance\<close>

text \<open>
  The library models that \<^verbatim>\<open>get_effective_irradiance\<close> runs are outside the
  repository. Their results are parameters: \<open>lib_eff\<close> is the Series that
  \<^verbatim>\<open>effective_irradiance_model\<close> leaves in \<^verbatim>\<open>self.effective_irradiance\<close>,
  \<open>report_back\<close> and \<open>report_front\<close> are the two lists of the view-factor
  engine's report. Building a DataFrame from lists whose length is not that of
  the index raises ValueError.
\<close>

definition get_effective_irradiance ::
  "(string \<rightharpoonup> int) \<Rightarrow> series \<Rightarrow> series \<Rightarrow> series \<Rightarrow> modelchain \<Rightarrow> weather \<Rightarrow> int \<Rightarrow>
   py_error option \<times> modelchain \<times> weather" where
  "get_effective_irradiance tzdb lib_eff report_back report_front self weather utc_offset =
     (case prepare_weather tzdb self weather utc_offset of
        (Some e, weather) \<Rightarrow> (Some e, self, weather)
      | (None, weather) \<Rightarrow>
          (let eff = fillna0 lib_eff;
               self = self\<lparr>effective_irradiance := Some eff\<rparr>;
               n = length (stamps (index weather))
           in
           if columns weather ''dni'' = None \<or> columns weather ''dhi'' = None
              \<or> columns weather ''surface_albedo'' = None
           then (Some AttributeError, self, weather)
           else if length report_back \<noteq> n \<or> length report_front \<noteq> n
           then (Some ValueError, self, weather)
           else
             (let back = fillna0 report_back;
                  front = fillna0 report_front;
                  self = self\<lparr>back_irradiance := Some back,
                              front_irradiance := Some front\<rparr>
              in
              case module_parameters (system self) ''bifaciality'' of
                None \<Rightarrow> (Some KeyError, self, weather)
              | Some bifaciality \<Rightarrow>
                  (let bifacial =
                         (if backtrack (system self)
                          then ser_add eff
                                 (ser_mul_c back
                                    (bifaciality * (1 - bifacial_losses self)))
                          else ser_add front
                                 (ser_mul_c back
                                    (bifaciality * (1 - bifacial_losses self))));
                       self = self\<lparr>effective_irradiance_bifacial := Some bifacial\<rparr>
                   in
                   case columns weather ''soiling'' of
                     None \<Rightarrow> (Some AttributeError, self, weather)
                   | Some soiling' \<Rightarrow>
                       (None,
                        self\<lparr>soiling := Some soiling',
                             effective_irradiance_soiled :=
                               Some (ser_mul bifacial (c_sub_ser 1 soiling'))\<rparr>,
                        weather)))))"

section \<open>AC stage\<close>

text \<open>
  The inverter model \<^verbatim>\<open>pvlib.pvsystem.pvwatts_ac\<close> is outside the repository
  and is a parameter of \<^verbatim>\<open>run_pvwatts_ac\<close>. The three local Series of the
  loss cascade are functions of the inverter output \<open>pac'\<close>.
\<close>

definition pmt_out :: "modelchain \<Rightarrow> series \<Rightarrow> series" where
  "pmt_out self pac' =
     zero_negatives
       (ser_sub pac'
          (ser_add_c
             (c_mul_ser (pmt_peak_loss self)
                (ser_pow2 (ser_div_c (ser_div_c pac' (98 / 100)) (pmt_rating self))))
             (pmt_constant_loss self)))"

definition mpt_in :: "modelchain \<Rightarrow> series \<Rightarrow> series" where
  "mpt_in self pac' = ser_mul_c (pmt_out self pac') (1 - ac_collection self)"

definition mpt_out :: "modelchain \<Rightarrow> series \<Rightarrow> series" where
  "mpt_out self pac' =
     zero_negatives
       (ser_sub (mpt_in self pac')
          (ser_add_c
             (c_mul_ser (mpt_peak_loss self)
                (ser_pow2
                   (ser_div_c (ser_div_c (mpt_in self pac') (98 / 100))
                      (mpt_bottom_rating self))))
             (mpt_constant_loss self)))"

definition ac_losses :: "modelchain \<Rightarrow> series \<Rightarrow> ac_frame" where
  "ac_losses self pac' =
     (let output = ser_mul_c (mpt_out self pac') (1 - transmission_loss self)
      in \<lparr>pac = pac', output_ac = output, losses_ac = ser_sub pac' output,
          clipping_ac = zero_negatives (ser_sub_c output (poi_capacity self))\<rparr>)"

definition run_pvwatts_ac ::
  "(series \<Rightarrow> real \<Rightarrow> real \<Rightarrow> series) \<Rightarrow> modelchain \<Rightarrow> py_error option \<times> modelchain" where
  "run_pvwatts_ac pvwatts_ac self =
     (case dc self of
        None \<Rightarrow> (Some AttributeError, self)
      | Some d \<Rightarrow>
          (case py_div (ac_capacity self) (inverter_efficiency_peak self) of
             Inl e \<Rightarrow> (Some e, self)
           | Inr pdc0 \<Rightarrow>
               (None,
                self\<lparr>ac := Some (ac_losses self
                  (pvwatts_ac (output_dc d) pdc0 (inverter_efficiency_peak self)))\<rparr>)))"

section \<open>Plant stage and metrics\<close>

definition run_plant_model :: "modelchain \<Rightarrow> py_error option \<times> modelchain" where
  "run_plant_model self =
     (case ac self of
        None \<Rightarrow> (Some AttributeError, self)
      | Some a \<Rightarrow>
          (let output = ser_sub (output_ac a) (clipping_ac a)
           in (None,
               self\<lparr>plant := Some \<lparr>output_plant = output,
                       losses_plant = ser_mul_c output (plant_losses self)\<rparr>\<rparr>)))"

text \<open>
  \<^verbatim>\<open>get_results\<close> assigns the four metrics one after the other, so the
  metrics assigned before an exception stay on the instance. The sums are NumPy
  values and so is everything divided by a Python number afterwards; only
  \<^verbatim>\<open>dc_capacity / efficiency\<close> divides one Python number by another.
\<close>

definition get_results :: "modelchain \<Rightarrow> py_error option \<times> modelchain" where
  "get_results self =
     (case plant self of
        None \<Rightarrow> (Some AttributeError, self)
      | Some p \<Rightarrow>
          (let aep' = ndiv (nmul (nsub (ser_sum (output_plant p))
                                       (ser_sum (losses_plant p)))
                                 (Fin (time_step self)))
                           (Fin 60);
               self = self\<lparr>aep := Some aep'\<rparr>;
               self = self\<lparr>ncf := Some (ndiv (ndiv aep' (Fin (poi_capacity self)))
                                             (Fin 8760))\<rparr>;
               self = self\<lparr>energy_yield := Some (ndiv aep' (Fin (dc_capacity self)))\<rparr>
           in
           case effective_irradiance self of
             None \<Rightarrow> (Some AttributeError, self)
           | Some eff \<Rightarrow>
               (case module_parameters (system self) ''efficiency'' of
                  None \<Rightarrow> (Some KeyError, self)
                | Some efficiency \<Rightarrow>
                    (case py_div (dc_capacity self) efficiency of
                       Inl e \<Rightarrow> (Some e, self)
                     | Inr q \<Rightarrow>
                         (None,
                          self\<lparr>pr := Some (nsub (Fin 1)
                            (ndiv aep'
                               (nmul (ndiv (nmul (ser_sum eff) (Fin (time_step self)))
                                           (Fin 60))
                                     (Fin (q / 1000)))))\<rparr>)))))"

section \<open>The cascade and the metrics as the specification words them\<close>

text \<open>
  Second definitions, written from the formulas of the specification over the
  reals, for one timestep with inverter output \<open>p\<close>. They are compared below
  with the Series computations of the source.
\<close>

definition spec_pmt_out :: "modelchain \<Rightarrow> real \<Rightarrow> real" where
  "spec_pmt_out self p =
     max 0 (p - (pmt_peak_loss self * (p / 0.98 / pmt_rating self)\<^sup>2
                 + pmt_constant_loss self))"

definition spec_mpt_in :: "modelchain \<Rightarrow> real \<Rightarrow> real" where
  "spec_mpt_in self p = spec_pmt_out self p * (1 - ac_collection self)"

definition spec_mpt_out :: "modelchain \<Rightarrow> real \<Rightarrow> real" where
  "spec_mpt_out self p =
     max 0 (spec_mpt_in self p
            - (mpt_peak_loss self * (spec_mpt_in self p / 0.98 / mpt_bottom_rating self)\<^sup>2
               + mpt_constant_loss self))"

definition spec_output :: "modelchain \<Rightarrow> real \<Rightarrow> real" where
  "spec_output self p = spec_mpt_out self p * (1 - transmission_loss self)"

definition spec_losses :: "modelchain \<Rightarrow> real \<Rightarrow> real" where
  "spec_losses self p = p - spec_output self p"

definition spec_clipping :: "modelchain \<Rightarrow> real \<Rightarrow> real" where
  "spec_clipping self p = max 0 (spec_output self p - poi_capacity self)"

definition spec_aep :: "real list \<Rightarrow> real list \<Rightarrow> real \<Rightarrow> real" where
  "spec_aep outputs losses ts = (sum_list outputs - sum_list losses) * ts / 60"

definition spec_ncf :: "real \<Rightarrow> real \<Rightarrow> real" where
  "spec_ncf aep' poi = aep' / poi / 8760"

definition spec_pr :: "real \<Rightarrow> real list \<Rightarrow> real \<Rightarrow> real \<Rightarrow> real \<Rightarrow> real" where
  "spec_pr aep' frontside ts dcc efficiency =
     1 - aep' / (sum_list frontside * ts / 60 * (dcc / efficiency / 1000))"

definition nonfinite :: "npfloat option \<Rightarrow> bool" where
  "nonfinite v = (case v of None \<Rightarrow> False | Some x \<Rightarrow> \<not> is_fin x)"

section \<open>Sample runs\<close>

text \<open>
  A tracker with backtracking and a chain around it, a two-step weather frame
  with a naive index, the one zone the runs need, and what the library models
  hand back for the two steps. The sample inverter only scales its input; the
  floored one also puts zero in place of a negative sample, as the last step of
  the library's inverter model does. The other chains differ from the first in
  the fields shown.
\<close>

definition demo_system :: pvsystem where
  "demo_system =
     get_system None ''tracker'' (3 / 2) 2 180 (2 / 5)
       [''pdc0'' \<mapsto> 1000, ''bifaciality'' \<mapsto> 7 / 10, ''efficiency'' \<mapsto> 1 / 5]
       Map.empty 0 60 True 0 0 0"

definition demo_dc :: dc_frame where
  "demo_dc = \<lparr>pdc = [Fin 0, Fin 1000], losses_dc = [Fin 0, Fin 0],
               output_dc = [Fin 0, Fin 1000], clipping_dc = [Fin 0, Fin 0]\<rparr>"

definition demo_chain :: modelchain where
  "demo_chain =
     \<lparr>system = demo_system,
      location = \<lparr>latitude = 40, longitude = - 105, loc_tz = - 7, altitude = 1600,
                  loc_name = ''demo''\<rparr>,
      degradation_loss = 0, bifacial_losses = 1 / 10, dc_losses = 1 / 50,
      ac_capacity = 900, inverter_efficiency_peak = 98 / 100,
      pmt_peak_loss = 10, pmt_rating = 1000, pmt_constant_loss = 2,
      ac_collection = 1 / 100, mpt_peak_loss = 5, mpt_bottom_rating = 1000,
      mpt_constant_loss = 1, transmission_loss = 1 / 100, poi_capacity = 800,
      plant_losses = 1 / 50, time_step = 60, dc_capacity = 1000,
      effective_irradiance = Some [Fin 0, Fin 500],
      back_irradiance = None, front_irradiance = None,
      effective_irradiance_bifacial = None, soiling = None,
      effective_irradiance_soiled = None,
      dc = Some demo_dc, ac = None,
      plant = Some \<lparr>output_plant = [Fin 100, Fin 100], losses_plant = [Fin 0, Fin 0]\<rparr>,
      aep = None, ncf = None, energy_yield = None, pr = None\<rparr>"

definition demo_inverter :: "series \<Rightarrow> real \<Rightarrow> real \<Rightarrow> series" where
  "demo_inverter pdc' pdc0 eta = ser_mul_c pdc' eta"

definition demo_weather :: weather where
  "demo_weather =
     \<lparr>index = \<lparr>stamps = [0, 60], tz = None\<rparr>,
      columns = [''ghi'' \<mapsto> [Fin 0, Fin 600], ''dni'' \<mapsto> [Fin 0, Fin 700],
                 ''dhi'' \<mapsto> [Fin 0, Fin 100], ''temp_air'' \<mapsto> [Fin 10, Fin 20],
                 ''wind_speed'' \<mapsto> [Fin 1, Fin 2],
                 ''surface_albedo'' \<mapsto> [Fin (1 / 5), Fin (1 / 5)],
                 ''soiling'' \<mapsto> [Fin (1 / 50), Fin (1 / 50)]],
      attrs = Map.empty\<rparr>"

definition demo_tzdb :: "string \<rightharpoonup> int" where
  "demo_tzdb = [''Etc/GMT+7'' \<mapsto> - 420]"

definition demo_lib_eff :: series where
  "demo_lib_eff = [NaN, Fin 500]"

definition demo_report_back :: series where
  "demo_report_back = [NaN, Fin 80]"

definition demo_report_front :: series where
  "demo_report_front = [Fin 0, Fin 600]"

definition zero_efficiency_chain :: modelchain where
  "zero_efficiency_chain =
     demo_chain\<lparr>system := demo_system\<lparr>module_parameters :=
       (module_parameters demo_system)(''efficiency'' \<mapsto> 0)\<rparr>\<rparr>"

definition zero_dc_chain :: modelchain where
  "zero_dc_chain =
     demo_chain\<lparr>system := demo_system\<lparr>module_parameters :=
       (module_parameters demo_system)(''pdc0'' \<mapsto> 0)\<rparr>, dc_capacity := 0\<rparr>"

definition monofacial_chain :: modelchain where
  "monofacial_chain =
     demo_chain\<lparr>system := demo_system\<lparr>module_parameters :=
       (module_parameters demo_system)(''bifaciality'' \<mapsto> 0)\<rparr>\<rparr>"

definition fixed_chain :: modelchain where
  "fixed_chain =
     demo_chain\<lparr>system :=
       get_system None ''ground-mount'' (3 / 2) 2 180 (2 / 5)
         [''pdc0'' \<mapsto> 1000, ''bifaciality'' \<mapsto> 7 / 10, ''efficiency'' \<mapsto> 1 / 5]
         Map.empty 0 0 False 25 180 0\<rparr>"

definition rooftop_chain :: modelchain where
  "rooftop_chain =
     demo_chain\<lparr>system :=
       get_system None ''rooftop'' 10 2 180 (1 / 2)
         [''pdc0'' \<mapsto> 1000, ''bifaciality'' \<mapsto> 7 / 10, ''efficiency'' \<mapsto> 1 / 5]
         Map.empty 0 0 False 10 180 (3 / 10)\<rparr>"

definition lossless_chain :: modelchain where
  "lossless_chain =
     demo_chain\<lparr>dc_losses := 0, pmt_peak_loss := 0, pmt_constant_loss := 0,
       ac_collection := 0, mpt_peak_loss := 0, mpt_constant_loss := 0,
       transmission_loss := 0, plant_losses := 0\<rparr>"

definition floored_inverter :: "series \<Rightarrow> real \<Rightarrow> real \<Rightarrow> series" where
  "floored_inverter pdc' pdc0 eta = zero_negatives (ser_mul_c pdc' eta)"

definition negative_dc :: dc_frame where
  "negative_dc = \<lparr>pdc = [Fin (- 5), Fin 1000], losses_dc = [Fin 0, Fin 0],
                   output_dc = [Fin (- 5), Fin 1000], clipping_dc = [Fin 0, Fin 0]\<rparr>"

definition lossless_run :: modelchain where
  "lossless_run = lossless_chain\<lparr>poi_capacity := 1000, dc := Some negative_dc\<rparr>"

section \<open>Series lemmas\<close>

lemma length_ser_ops [simp]:
  "length (ser_add_c xs c) = length xs"
  "length (ser_sub_c xs c) = length xs"
  "length (c_sub_ser c xs) = length xs"
  "length (ser_mul_c xs c) = length xs"
  "length (c_mul_ser c xs) = length xs"
  "length (ser_div_c xs c) = length xs"
  "length (ser_pow2 xs) = length xs"
  "length (zero_negatives xs) = length xs"
  "length (fillna0 xs) = length xs"
  "length (ser_add xs ys) = min (length xs) (length ys)"
  "length (ser_sub xs ys) = min (length xs) (length ys)"
  "length (ser_mul xs ys) = min (length xs) (length ys)"
  by (simp_all add: ser_add_c_def ser_sub_c_def c_sub_ser_def ser_mul_c_def c_mul_ser_def
      ser_div_c_def ser_pow2_def zero_negatives_def fillna0_def ser_add_def ser_sub_def
      ser_mul_def)

lemma nth_ser_ops:
  "t < length xs \<Longrightarrow> ser_add_c xs c ! t = nadd (xs ! t) (Fin c)"
  "t < length xs \<Longrightarrow> ser_sub_c xs c ! t = nsub (xs ! t) (Fin c)"
  "t < length xs \<Longrightarrow> c_sub_ser c xs ! t = nsub (Fin c) (xs ! t)"
  "t < length xs \<Longrightarrow> ser_mul_c xs c ! t = nmul (xs ! t) (Fin c)"
  "t < length xs \<Longrightarrow> c_mul_ser c xs ! t = nmul (Fin c) (xs ! t)"
  "t < length xs \<Longrightarrow> ser_div_c xs c ! t = ndiv (xs ! t) (Fin c)"
  "t < length xs \<Longrightarrow> ser_pow2 xs ! t = nmul (xs ! t) (xs ! t)"
  "t < length xs \<Longrightarrow>
     zero_negatives xs ! t = (if nlt (xs ! t) (Fin 0) then Fin 0 else xs ! t)"
  "t < length xs \<Longrightarrow> fillna0 xs ! t = (if xs ! t = NaN then Fin 0 else xs ! t)"
  by (simp_all add: ser_add_c_def ser_sub_c_def c_sub_ser_def ser_mul_c_def c_mul_ser_def
      ser_div_c_def ser_pow2_def zero_negatives_def fillna0_def)

lemma nth_ser_ops2:
  "t < length xs \<Longrightarrow> t < length ys \<Longrightarrow> ser_add xs ys ! t = nadd (xs ! t) (ys ! t)"
  "t < length xs \<Longrightarrow> t < length ys \<Longrightarrow> ser_sub xs ys ! t = nsub (xs ! t) (ys ! t)"
  "t < length xs \<Longrightarrow> t < length ys \<Longrightarrow> ser_mul xs ys ! t = nmul (xs ! t) (ys ! t)"
  by (simp_all add: ser_add_def ser_sub_def ser_mul_def)

lemma nsub_Fin [simp]: "nsub (Fin a) (Fin b) = Fin (a - b)"
  by (simp add: nsub_def)

lemma transformer_fin:
  assumes "r \<noteq> 0"
  shows "(let y = nsub (Fin x)
            (nadd (nmul (Fin k)
               (nmul (ndiv (ndiv (Fin x) (Fin (98 / 100))) (Fin r))
                     (ndiv (ndiv (Fin x) (Fin (98 / 100))) (Fin r))))
               (Fin c))
          in if nlt y (Fin 0) then Fin 0 else y)
         = Fin (max 0 (x - (k * (x / 0.98 / r)\<^sup>2 + c)))"
  using assms by (simp add: Let_def power2_eq_square max_def)

lemma pmt_out_nth:
  assumes "t < length pac'" "pac' ! t = Fin p" "pmt_rating self \<noteq> 0"
  shows "pmt_out self pac' ! t = Fin (spec_pmt_out self p)"
proof -
  have "pmt_out self pac' ! t =
      (let y = nsub (Fin p)
            (nadd (nmul (Fin (pmt_peak_loss self))
               (nmul (ndiv (ndiv (Fin p) (Fin (98 / 100))) (Fin (pmt_rating self)))
                     (ndiv (ndiv (Fin p) (Fin (98 / 100))) (Fin (pmt_rating self)))))
               (Fin (pmt_constant_loss self)))
          in if nlt y (Fin 0) then Fin 0 else y)"
    using assms(1,2) by (simp add: pmt_out_def nth_ser_ops nth_ser_ops2 Let_def)
  also have "\<dots> = Fin (spec_pmt_out self p)"
    unfolding spec_pmt_out_def by (rule transformer_fin [OF assms(3)])
  finally show ?thesis .
qed

lemma mpt_in_nth:
  assumes "t < length pac'" "pac' ! t = Fin p" "pmt_rating self \<noteq> 0"
  shows "mpt_in self pac' ! t = Fin (spec_mpt_in self p)"
  using assms pmt_out_nth [OF assms]
  by (simp add: mpt_in_def spec_mpt_in_def nth_ser_ops pmt_out_def)

lemma length_cascade [simp]:
  "length (pmt_out self pac') = length pac'"
  "length (mpt_in self pac') = length pac'"
  "length (mpt_out self pac') = length pac'"
  by (simp_all add: pmt_out_def mpt_in_def mpt_out_def)

lemma mpt_out_nth:
  assumes "t < length pac'" "pac' ! t = Fin p" "pmt_rating self \<noteq> 0"
    "mpt_bottom_rating self \<noteq> 0"
  shows "mpt_out self pac' ! t = Fin (spec_mpt_out self p)"
proof -
  have m: "mpt_in self pac' ! t = Fin (spec_mpt_in self p)"
    by (rule mpt_in_nth [OF assms(1-3)])
  have "mpt_out self pac' ! t =
      (let y = nsub (Fin (spec_mpt_in self p))
            (nadd (nmul (Fin (mpt_peak_loss self))
               (nmul (ndiv (ndiv (Fin (spec_mpt_in self p)) (Fin (98 / 100)))
                           (Fin (mpt_bottom_rating self)))
                     (ndiv (ndiv (Fin (spec_mpt_in self p)) (Fin (98 / 100)))
                           (Fin (mpt_bottom_rating self)))))
               (Fin (mpt_constant_loss self)))
          in if nlt y (Fin 0) then Fin 0 else y)"
    using assms(1) m by (simp add: mpt_out_def nth_ser_ops nth_ser_ops2 Let_def)
  also have "\<dots> = Fin (spec_mpt_out self p)"
    unfolding spec_mpt_out_def by (rule transformer_fin [OF assms(4)])
  finally show ?thesis .
qed

lemma ac_losses_nth:
  assumes "t < length pac'" "pac' ! t = Fin p" "pmt_rating self \<noteq> 0"
    "mpt_bottom_rating self \<noteq> 0"
  shows "output_ac (ac_losses self pac') ! t = Fin (spec_output self p)"
    "losses_ac (ac_losses self pac') ! t = Fin (spec_losses self p)"
    "clipping_ac (ac_losses self pac') ! t = Fin (spec_clipping self p)"
  using assms mpt_out_nth [OF assms]
  by (simp_all add: ac_losses_def Let_def spec_output_def spec_losses_def spec_clipping_def
      nth_ser_ops nth_ser_ops2 max_def)

lemma nadd_zero_right [simp]: "nadd x (Fin 0) = x"
  by (cases x) simp_all

lemma foldl_nadd_Fin: "foldl nadd (Fin a) (map Fin xs) = Fin (a + sum_list xs)"
  by (induction xs arbitrary: a) (simp_all add: add.assoc)

lemma ser_sum_map_Fin: "ser_sum (map Fin xs) = Fin (sum_list xs)"
proof -
  have "filter (\<lambda>x. x \<noteq> NaN) (map Fin xs) = map Fin xs"
    by (induction xs) simp_all
  then show ?thesis
    by (simp add: ser_sum_def foldl_nadd_Fin)
qed

lemma foldl_nadd_zeros: "foldl nadd a (replicate k (Fin 0)) = a"
  by (induction k) simp_all

lemma ser_sum_append_zeros: "ser_sum (xs @ replicate k (Fin 0)) = ser_sum xs"
proof -
  have "filter (\<lambda>x. x \<noteq> NaN) (replicate k (Fin 0)) = replicate k (Fin 0)"
    by (induction k) simp_all
  then show ?thesis
    by (simp add: ser_sum_def foldl_nadd_zeros)
qed

lemma fillna0_scaled_zero:
  assumes "x \<noteq> PInf" "x \<noteq> NInf"
  shows "nmul (if x = NaN then Fin 0 else x) (Fin 0) = Fin 0"
  using assms by (cases x) simp_all

lemma no_back_term:
  assumes "length front \<le> length back" and "\<forall>x\<in>set back. x \<noteq> PInf \<and> x \<noteq> NInf"
  shows "ser_add front (ser_mul_c (fillna0 back) 0) = front"
proof (rule nth_equalityI)
  show "length (ser_add front (ser_mul_c (fillna0 back) 0)) = length front"
    using assms(1) by simp
next
  fix i assume "i < length (ser_add front (ser_mul_c (fillna0 back) 0))"
  then have i: "i < length front" "i < length back"
    using assms(1) by simp_all
  then have "back ! i \<noteq> PInf" "back ! i \<noteq> NInf"
    using assms(2) by (auto simp: all_set_conv_all_nth)
  then have "nmul (if back ! i = NaN then Fin 0 else back ! i) (Fin 0) = Fin 0"
    by (rule fillna0_scaled_zero)
  with i show "ser_add front (ser_mul_c (fillna0 back) 0) ! i = front ! i"
    by (simp add: nth_ser_ops nth_ser_ops2)
qed

lemma prepare_weather_frame:
  assumes "prepare_weather tzdb self w u = (err, w')"
  shows "\<forall>c. c \<noteq> ''albedo'' \<longrightarrow> columns w' c = columns w c \<and> attrs w' c = attrs w c"
    and "length (stamps (index w')) = length (stamps (index w))"
    and "case tzdb (''Etc/GMT+'' @ str_int (- u)) of
           None \<Rightarrow> w' = w \<and> err = Some UnknownTimeZoneError
         | Some off \<Rightarrow> err = None \<and> index w' =
             \<lparr>stamps = (if tz (index w) = None
                         then map (\<lambda>s. s - off) (stamps (index w))
                         else stamps (index w)),
              tz = Some (''Etc/GMT+'' @ str_int (- u))\<rparr>"
  using assms
  by (auto simp: prepare_weather_def tz_localize_def tz_convert_def set_albedo_def Let_def
      split: option.splits if_splits)

lemma gei_weather:
  "snd (snd (get_effective_irradiance tzdb le rb rf self w u)) = snd (prepare_weather tzdb self w u)"
  by (auto simp: get_effective_irradiance_def Let_def split: option.splits prod.splits)

lemma gei_success:
  assumes "get_effective_irradiance tzdb le rb rf self w u = (None, self', w')"
  shows "\<exists>bif s. module_parameters (system self) ''bifaciality'' = Some bif \<and>
           columns w' ''soiling'' = Some s \<and>
           prepare_weather tzdb self w u = (None, w') \<and>
           length rb = length (stamps (index w')) \<and>
           length rf = length (stamps (index w')) \<and>
           effective_irradiance self' = Some (fillna0 le) \<and>
           back_irradiance self' = Some (fillna0 rb) \<and>
           front_irradiance self' = Some (fillna0 rf) \<and>
           soiling self' = Some s \<and>
           effective_irradiance_bifacial self' =
             Some (ser_add (if backtrack (system self) then fillna0 le else fillna0 rf)
                     (ser_mul_c (fillna0 rb) (bif * (1 - bifacial_losses self)))) \<and>
           effective_irradiance_soiled self' =
             Some (ser_mul
                     (ser_add (if backtrack (system self) then fillna0 le else fillna0 rf)
                        (ser_mul_c (fillna0 rb) (bif * (1 - bifacial_losses self))))
                     (c_sub_ser 1 s))"
  using assms
  by (auto simp: get_effective_irradiance_def Let_def split: option.splits prod.splits if_splits)

section \<open>Lemmas on the metrics\<close>

lemma get_results_assigned:
  assumes "plant self = Some p"
  shows "aep (snd (get_results self)) =
           Some (ndiv (nmul (nsub (ser_sum (output_plant p)) (ser_sum (losses_plant p)))
                            (Fin (time_step self))) (Fin 60))"
    and "ncf (snd (get_results self)) =
           Some (ndiv (ndiv (ndiv (nmul (nsub (ser_sum (output_plant p))
                                              (ser_sum (losses_plant p)))
                                        (Fin (time_step self))) (Fin 60))
                            (Fin (poi_capacity self))) (Fin 8760))"
    and "energy_yield (snd (get_results self)) =
           Some (ndiv (ndiv (nmul (nsub (ser_sum (output_plant p))
                                        (ser_sum (losses_plant p)))
                                  (Fin (time_step self))) (Fin 60))
                      (Fin (dc_capacity self)))"
  using assms
  by (simp_all add: get_results_def Let_def split: option.splits sum.splits)

lemma get_results_pr:
  assumes "plant self = Some p" and "effective_irradiance self = Some e"
    and "module_parameters (system self) ''efficiency'' = Some efficiency"
  shows "efficiency = 0 \<Longrightarrow> fst (get_results self) = Some ZeroDivisionError"
    and "efficiency = 0 \<Longrightarrow> pr (snd (get_results self)) = pr self"
    and "efficiency \<noteq> 0 \<Longrightarrow> fst (get_results self) = None"
    and "efficiency \<noteq> 0 \<Longrightarrow> pr (snd (get_results self)) =
           Some (nsub (Fin 1)
             (ndiv (ndiv (nmul (nsub (ser_sum (output_plant p)) (ser_sum (losses_plant p)))
                               (Fin (time_step self))) (Fin 60))
                (nmul (ndiv (nmul (ser_sum e) (Fin (time_step self))) (Fin 60))
                      (Fin (dc_capacity self / efficiency / 1000)))))"
  using assms
  by (simp_all add: get_results_def Let_def py_div_def)

lemma aep_fin:
  "ndiv (nmul (nsub (ser_sum (map Fin outputs)) (ser_sum (map Fin losses))) (Fin ts)) (Fin 60)
     = Fin (spec_aep outputs losses ts)"
  by (simp add: ser_sum_map_Fin spec_aep_def)

lemma ndiv_by_zero_nonfinite: "\<not> is_fin (ndiv a (Fin 0))"
  by (cases a) simp_all

lemma ndiv_by_nan_nonfinite: "\<not> is_fin (ndiv a NaN)"
  by (cases a) simp_all

lemma nmul_zero_cases: "nmul x (Fin 0) = Fin 0 \<or> nmul x (Fin 0) = NaN"
  by (cases x) simp_all

lemma one_minus_nonfinite: "\<not> is_fin y \<Longrightarrow> \<not> is_fin (nsub (Fin 1) y)"
  by (cases y) (simp_all add: nsub_def)

section \<open>Lemmas on the clamped losses\<close>

lemma clamped_loss:
  fixes x k c y :: real
  assumes "0 \<le> x" and "0 \<le> k" and "0 \<le> c"
  shows "0 \<le> max 0 (x - (k * y\<^sup>2 + c))"
    and "max 0 (x - (k * y\<^sup>2 + c)) \<le> x"
    and "0 < x \<Longrightarrow> 0 < c \<Longrightarrow> max 0 (x - (k * y\<^sup>2 + c)) < x"
proof -
  have "0 \<le> k * y\<^sup>2" using assms(2) by simp
  then have l: "c \<le> k * y\<^sup>2 + c" by simp
  show "0 \<le> max 0 (x - (k * y\<^sup>2 + c))" by simp
  show "max 0 (x - (k * y\<^sup>2 + c)) \<le> x" using l assms(1,3) by (simp add: max_def)
  show "max 0 (x - (k * y\<^sup>2 + c)) < x" if "0 < x" "0 < c"
    using l that by (simp add: max_def)
qed

lemma spec_pmt_out_bounds:
  assumes "0 \<le> p" and "0 \<le> pmt_peak_loss self" and "0 \<le> pmt_constant_loss self"
  shows "0 \<le> spec_pmt_out self p" and "spec_pmt_out self p \<le> p"
    and "0 < p \<Longrightarrow> 0 < pmt_constant_loss self \<Longrightarrow> spec_pmt_out self p < p"
  unfolding spec_pmt_out_def
  by (rule clamped_loss [OF assms])+

lemma spec_mpt_out_bounds:
  assumes "0 \<le> spec_mpt_in self p" and "0 \<le> mpt_peak_loss self"
    and "0 \<le> mpt_constant_loss self"
  shows "spec_mpt_out self p \<le> spec_mpt_in self p"
    and "0 < spec_mpt_in self p \<Longrightarrow> 0 < mpt_constant_loss self \<Longrightarrow>
           spec_mpt_out self p < spec_mpt_in self p"
  unfolding spec_mpt_out_def
  by (rule clamped_loss(2,3) [OF assms])+

lemma spec_lossless:
  assumes "0 \<le> p" and "pmt_peak_loss self = 0" and "pmt_constant_loss self = 0"
    and "mpt_peak_loss self = 0" and "mpt_constant_loss self = 0"
    and "ac_collection self = 0" and "transmission_loss self = 0"
  shows "spec_output self p = p"
  using assms
  by (simp add: spec_output_def spec_mpt_out_def spec_mpt_in_def spec_pmt_out_def)

section \<open>Lemmas on the sample runs\<close>

lemma gei_collapse:
  "get_effective_irradiance tzdb le rb rf self w u =
     (fst (get_effective_irradiance tzdb le rb rf self w u),
      fst (snd (get_effective_irradiance tzdb le rb rf self w u)),
      snd (snd (get_effective_irradiance tzdb le rb rf self w u)))"
  by simp

lemma gei_run:
  "fst (get_effective_irradiance tzdb le rb rf self w u) = None \<Longrightarrow>
   get_effective_irradiance tzdb le rb rf self w u =
     (None, fst (snd (get_effective_irradiance tzdb le rb rf self w u)),
      snd (snd (get_effective_irradiance tzdb le rb rf self w u)))"
  by (simp add: prod_eq_iff)

lemma str_int_7: "str_int 7 = ''7''"
  by (simp add: str_int_def str_nat.simps)

lemma str_int_minus_5: "str_int (- 5) = ''-5''"
  by (simp add: str_int_def str_nat.simps)

lemma floored_inverter_floor: "\<forall>x\<in>set (floored_inverter pdc' pdc0 eta). \<not> nlt x (Fin 0)"
  by (auto simp: floored_inverter_def zero_negatives_def)

lemmas demo_run_defs =
  get_effective_irradiance_def prepare_weather_def tz_localize_def set_albedo_def
  demo_tzdb_def demo_weather_def str_int_7 demo_chain_def demo_system_def get_system_def
  Let_def demo_lib_eff_def demo_report_back_def demo_report_front_def fillna0_def
  ser_add_def ser_mul_c_def ser_mul_def c_sub_ser_def

lemma demo_plant:
  "plant demo_chain = Some \<lparr>output_plant = map Fin [100, 100], losses_plant = map Fin [0, 0]\<rparr>"
  "effective_irradiance demo_chain = Some (map Fin [0, 500])"
  "module_parameters (system demo_chain) ''efficiency'' = Some (1 / 5)"
  by (simp_all add: demo_chain_def demo_system_def get_system_def)

section \<open>The AC cascade\<close>

text \<open>
  Claim C1. For a timestep whose inverter output is a finite number \<open>p\<close>, and
  transformer ratings that are not zero, \<^verbatim>\<open>run_pvwatts_ac\<close> returns and the
  Series it computes hold, at that timestep, the values of the cascade in its
  order: the padmount output clamped at zero, the input of the main transformer,
  its output clamped at zero on its own, then output, losses and clipping.
\<close>

theorem ac_cascade_order:
  assumes "dc self = Some d" and "inverter_efficiency_peak self \<noteq> 0"
    and "pac' = pvwatts_ac (output_dc d)
           (ac_capacity self / inverter_efficiency_peak self)
           (inverter_efficiency_peak self)"
    and "t < length pac'" and "pac' ! t = Fin p"
    and "pmt_rating self \<noteq> 0" and "mpt_bottom_rating self \<noteq> 0"
  shows "run_pvwatts_ac pvwatts_ac self = (None, self\<lparr>ac := Some (ac_losses self pac')\<rparr>) \<and>
         pac (ac_losses self pac') = pac' \<and>
         pmt_out self pac' ! t = Fin (spec_pmt_out self p) \<and>
         mpt_in self pac' ! t = Fin (spec_mpt_in self p) \<and>
         mpt_out self pac' ! t = Fin (spec_mpt_out self p) \<and>
         output_ac (ac_losses self pac') ! t = Fin (spec_output self p) \<and>
         losses_ac (ac_losses self pac') ! t = Fin (spec_losses self p) \<and>
         clipping_ac (ac_losses self pac') ! t = Fin (spec_clipping self p)"
proof -
  have "run_pvwatts_ac pvwatts_ac self = (None, self\<lparr>ac := Some (ac_losses self pac')\<rparr>)"
    using assms(1-3) by (simp add: run_pvwatts_ac_def py_div_def)
  moreover have "pac (ac_losses self pac') = pac'"
    by (simp add: ac_losses_def Let_def)
  ultimately show ?thesis
    using pmt_out_nth [OF assms(4,5,6)] mpt_in_nth [OF assms(4,5,6)]
      mpt_out_nth [OF assms(4-7)] ac_losses_nth [OF assms(4-7)]
    by simp
qed

theorem ac_cascade_order_witness:
  "dc demo_chain = Some demo_dc \<and> inverter_efficiency_peak demo_chain \<noteq> 0 \<and>
   demo_inverter (output_dc demo_dc)
     (ac_capacity demo_chain / inverter_efficiency_peak demo_chain)
     (inverter_efficiency_peak demo_chain) = [Fin 0, Fin 980] \<and>
   pmt_rating demo_chain \<noteq> 0 \<and> mpt_bottom_rating demo_chain \<noteq> 0 \<and>
   run_pvwatts_ac demo_inverter demo_chain =
     (None, demo_chain\<lparr>ac := Some (ac_losses demo_chain [Fin 0, Fin 980])\<rparr>) \<and>
   pmt_out demo_chain [Fin 0, Fin 980] ! 1 = Fin 968 \<and>
   mpt_in demo_chain [Fin 0, Fin 980] ! 1 = Fin (23958 / 25) \<and>
   mpt_out demo_chain [Fin 0, Fin 980] ! 1 = Fin (28588070059 / 30012500) \<and>
   output_ac (ac_losses demo_chain [Fin 0, Fin 980]) ! 1 = Fin (2830218935841 / 3001250000) \<and>
   losses_ac (ac_losses demo_chain [Fin 0, Fin 980]) ! 1 = Fin (111006064159 / 3001250000) \<and>
   clipping_ac (ac_losses demo_chain [Fin 0, Fin 980]) ! 1 = Fin (429218935841 / 3001250000)"
proof -
  have h: "dc demo_chain = Some demo_dc" "inverter_efficiency_peak demo_chain \<noteq> 0"
    "[Fin 0, Fin 980] = demo_inverter (output_dc demo_dc)
       (ac_capacity demo_chain / inverter_efficiency_peak demo_chain)
       (inverter_efficiency_peak demo_chain)"
    "1 < length [Fin 0, Fin 980]" "[Fin 0, Fin 980] ! 1 = Fin 980"
    "pmt_rating demo_chain \<noteq> 0" "mpt_bottom_rating demo_chain \<noteq> 0"
    by (simp_all add: demo_chain_def demo_dc_def demo_inverter_def ser_mul_c_def)
  have v: "spec_pmt_out demo_chain 980 = 968"
    "spec_mpt_in demo_chain 980 = 23958 / 25"
    "spec_mpt_out demo_chain 980 = 28588070059 / 30012500"
    "spec_output demo_chain 980 = 2830218935841 / 3001250000"
    "spec_losses demo_chain 980 = 111006064159 / 3001250000"
    "spec_clipping demo_chain 980 = 429218935841 / 3001250000"
    by (simp_all add: spec_pmt_out_def spec_mpt_in_def spec_mpt_out_def spec_output_def
        spec_losses_def spec_clipping_def demo_chain_def power2_eq_square)
  show ?thesis
    using ac_cascade_order [where pvwatts_ac = demo_inverter, OF h] h v by simp
qed

text \<open>
  Claim C6. The inverter model is the library's, whose last step puts zero in
  place of a negative sample. For every inverter whose output has no negative
  sample: with the collection and transmission fractions and the four
  transformer loss constants at zero, ratings that are not zero, and a timestep
  whose inverter output \<open>p\<close> is finite and not above the POI capacity, the AC
  stage and the plant stage return and the plant output at that timestep is
  \<open>p\<close>, the inverter output. The DC loss fraction and the plant loss fraction
  play no part.
\<close>

theorem lossless_cascade:
  assumes "\<And>pdc' pdc0 eta. \<forall>x\<in>set (pvwatts_ac pdc' pdc0 eta). \<not> nlt x (Fin 0)"
    and "dc self = Some d" and "inverter_efficiency_peak self \<noteq> 0"
    and "pac' = pvwatts_ac (output_dc d)
           (ac_capacity self / inverter_efficiency_peak self)
           (inverter_efficiency_peak self)"
    and "t < length pac'" and "pac' ! t = Fin p"
    and "p \<le> poi_capacity self"
    and "pmt_rating self \<noteq> 0" and "mpt_bottom_rating self \<noteq> 0"
    and "pmt_peak_loss self = 0" and "pmt_constant_loss self = 0"
    and "mpt_peak_loss self = 0" and "mpt_constant_loss self = 0"
    and "ac_collection self = 0" and "transmission_loss self = 0"
  shows "fst (run_pvwatts_ac pvwatts_ac self) = None \<and>
         fst (run_plant_model (snd (run_pvwatts_ac pvwatts_ac self))) = None \<and>
         map_option (\<lambda>a. pac a ! t)
           (ac (snd (run_plant_model (snd (run_pvwatts_ac pvwatts_ac self)))))
           = Some (Fin p) \<and>
         map_option (\<lambda>pl. output_plant pl ! t)
           (plant (snd (run_plant_model (snd (run_pvwatts_ac pvwatts_ac self)))))
           = Some (Fin p)"
proof -
  have "pac' ! t \<in> set pac'"
    using assms(5) by simp
  then have "\<not> nlt (pac' ! t) (Fin 0)"
    using assms(1) [of "output_dc d" "ac_capacity self / inverter_efficiency_peak self"
        "inverter_efficiency_peak self"] assms(4)
    by simp
  then have p: "0 \<le> p"
    using assms(6) by simp
  have run: "run_pvwatts_ac pvwatts_ac self = (None, self\<lparr>ac := Some (ac_losses self pac')\<rparr>)"
    using assms(2-4) by (simp add: run_pvwatts_ac_def py_div_def)
  have out: "output_ac (ac_losses self pac') ! t = Fin p"
    using ac_losses_nth(1) [OF assms(5,6,8,9)] spec_lossless [OF p assms(10-15)] by simp
  have clip: "clipping_ac (ac_losses self pac') ! t = Fin 0"
    using ac_losses_nth(3) [OF assms(5,6,8,9)] spec_lossless [OF p assms(10-15)] assms(7)
    by (simp add: spec_clipping_def)
  have len: "t < length (output_ac (ac_losses self pac'))"
    "t < length (clipping_ac (ac_losses self pac'))"
    using assms(5) by (simp_all add: ac_losses_def Let_def)
  have "ser_sub (output_ac (ac_losses self pac')) (clipping_ac (ac_losses self pac')) ! t
      = Fin p"
    using len out clip by (simp add: nth_ser_ops2)
  moreover have "pac (ac_losses self pac') ! t = Fin p"
    using assms(6) by (simp add: ac_losses_def Let_def)
  ultimately show ?thesis
    using run by (simp add: run_plant_model_def Let_def)
qed

theorem lossless_cascade_witness:
  "dc lossless_run = Some negative_dc \<and> output_dc negative_dc = [Fin (- 5), Fin 1000] \<and>
   floored_inverter (output_dc negative_dc)
     (ac_capacity lossless_run / inverter_efficiency_peak lossless_run)
     (inverter_efficiency_peak lossless_run) = [Fin 0, Fin 980] \<and>
   (980::real) \<le> poi_capacity lossless_run \<and>
   fst (run_pvwatts_ac floored_inverter lossless_run) = None \<and>
   fst (run_plant_model (snd (run_pvwatts_ac floored_inverter lossless_run))) = None \<and>
   map_option (\<lambda>a. pac a ! 0)
     (ac (snd (run_plant_model (snd (run_pvwatts_ac floored_inverter lossless_run)))))
     = Some (Fin 0) \<and>
   map_option (\<lambda>pl. output_plant pl ! 0)
     (plant (snd (run_plant_model (snd (run_pvwatts_ac floored_inverter lossless_run)))))
     = Some (Fin 0) \<and>
   map_option (\<lambda>a. pac a ! 1)
     (ac (snd (run_plant_model (snd (run_pvwatts_ac floored_inverter lossless_run)))))
     = Some (Fin 980) \<and>
   map_option (\<lambda>pl. output_plant pl ! 1)
     (plant (snd (run_plant_model (snd (run_pvwatts_ac floored_inverter lossless_run)))))
     = Some (Fin 980)"
proof -
  have h: "dc lossless_run = Some negative_dc"
    "inverter_efficiency_peak lossless_run \<noteq> 0"
    "[Fin 0, Fin 980] = floored_inverter (output_dc negative_dc)
       (ac_capacity lossless_run / inverter_efficiency_peak lossless_run)
       (inverter_efficiency_peak lossless_run)"
    by (simp_all add: lossless_run_def lossless_chain_def demo_chain_def negative_dc_def
        floored_inverter_def ser_mul_c_def zero_negatives_def)
  have t: "0 < length [Fin 0, Fin 980]" "[Fin 0, Fin 980] ! 0 = Fin 0"
    "1 < length [Fin 0, Fin 980]" "[Fin 0, Fin 980] ! 1 = Fin 980"
    by simp_all
  have c: "0 \<le> poi_capacity lossless_run" "980 \<le> poi_capacity lossless_run"
    by (simp_all add: lossless_run_def)
  have z: "pmt_rating lossless_run \<noteq> 0" "mpt_bottom_rating lossless_run \<noteq> 0"
    "pmt_peak_loss lossless_run = 0" "pmt_constant_loss lossless_run = 0"
    "mpt_peak_loss lossless_run = 0" "mpt_constant_loss lossless_run = 0"
    "ac_collection lossless_run = 0" "transmission_loss lossless_run = 0"
    by (simp_all add: lossless_run_def lossless_chain_def demo_chain_def)
  have d: "output_dc negative_dc = [Fin (- 5), Fin 1000]"
    by (simp add: negative_dc_def)
  show ?thesis
    using lossless_cascade [where pvwatts_ac = floored_inverter,
        OF floored_inverter_floor h t(1,2) c(1) z]
      lossless_cascade [where pvwatts_ac = floored_inverter,
        OF floored_inverter_floor h t(3,4) c(2) z] h(1,3) c(2) d
    by simp
qed

text \<open>
  Claim C7, as amended. With loss coefficients that are not negative, a
  collection fraction of at most one and ratings that are not zero, at a
  timestep whose inverter output \<open>p\<close> is finite and not negative each
  transformer's output is at most its input, and strictly below it when the
  input is positive and the constant loss of that transformer is positive.
\<close>

theorem transformer_losses:
  assumes "t < length pac'" and "pac' ! t = Fin p" and "0 \<le> p"
    and "pmt_rating self \<noteq> 0" and "mpt_bottom_rating self \<noteq> 0"
    and "0 \<le> pmt_peak_loss self" and "0 \<le> pmt_constant_loss self"
    and "0 \<le> mpt_peak_loss self" and "0 \<le> mpt_constant_loss self"
    and "ac_collection self \<le> 1"
  shows "pmt_out self pac' ! t = Fin (spec_pmt_out self p) \<and>
         mpt_in self pac' ! t = Fin (spec_mpt_in self p) \<and>
         mpt_out self pac' ! t = Fin (spec_mpt_out self p) \<and>
         (if 0 < p \<and> 0 < pmt_constant_loss self
          then spec_pmt_out self p < p else spec_pmt_out self p \<le> p) \<and>
         (if 0 < spec_mpt_in self p \<and> 0 < mpt_constant_loss self
          then spec_mpt_out self p < spec_mpt_in self p
          else spec_mpt_out self p \<le> spec_mpt_in self p)"
proof -
  have m: "0 \<le> spec_mpt_in self p"
    using spec_pmt_out_bounds(1) [OF assms(3,6,7)] assms(10)
    by (simp add: spec_mpt_in_def)
  show ?thesis
    using pmt_out_nth [OF assms(1,2,4)] mpt_in_nth [OF assms(1,2,4)]
      mpt_out_nth [OF assms(1,2,4,5)] spec_pmt_out_bounds(2,3) [OF assms(3,6,7)]
      spec_mpt_out_bounds [OF m assms(8,9)]
    by simp
qed

theorem transformer_losses_witness:
  "(0::real) \<le> 980 \<and> 0 < pmt_constant_loss demo_chain \<and> 0 < mpt_constant_loss demo_chain \<and>
   pmt_out demo_chain [Fin 0, Fin 980] ! 1 = Fin 968 \<and> (968::real) < 980 \<and>
   mpt_in demo_chain [Fin 0, Fin 980] ! 1 = Fin (23958 / 25) \<and>
   mpt_out demo_chain [Fin 0, Fin 980] ! 1 = Fin (28588070059 / 30012500) \<and>
   (28588070059 / 30012500 :: real) < 23958 / 25"
proof -
  have h: "1 < length [Fin 0, Fin 980]" "[Fin 0, Fin 980] ! 1 = Fin 980" "(0::real) \<le> 980"
    "pmt_rating demo_chain \<noteq> 0" "mpt_bottom_rating demo_chain \<noteq> 0"
    "0 \<le> pmt_peak_loss demo_chain" "0 \<le> pmt_constant_loss demo_chain"
    "0 \<le> mpt_peak_loss demo_chain" "0 \<le> mpt_constant_loss demo_chain"
    "ac_collection demo_chain \<le> 1"
    by (simp_all add: demo_chain_def)
  have c: "0 < pmt_constant_loss demo_chain" "0 < mpt_constant_loss demo_chain"
    by (simp_all add: demo_chain_def)
  have v: "spec_pmt_out demo_chain 980 = 968"
    "spec_mpt_in demo_chain 980 = 23958 / 25"
    "spec_mpt_out demo_chain 980 = 28588070059 / 30012500"
    by (simp_all add: spec_pmt_out_def spec_mpt_in_def spec_mpt_out_def demo_chain_def
        power2_eq_square)
  show ?thesis
    using transformer_losses [OF h] c v by simp
qed

text \<open>
  The claim as written fails at an input of zero, which is within every rating:
  the clamp gives an output of zero, equal to the input, although both constant
  losses are positive.
\<close>

theorem zero_input_counterexample:
  "pmt_rating demo_chain = 1000 \<and> pmt_constant_loss demo_chain = 2 \<and>
   mpt_bottom_rating demo_chain = 1000 \<and> mpt_constant_loss demo_chain = 1 \<and>
   pmt_out demo_chain [Fin 0] ! 0 = Fin 0 \<and>
   \<not> nlt (pmt_out demo_chain [Fin 0] ! 0) ([Fin 0] ! 0) \<and>
   mpt_in demo_chain [Fin 0] ! 0 = Fin 0 \<and>
   mpt_out demo_chain [Fin 0] ! 0 = Fin 0 \<and>
   \<not> nlt (mpt_out demo_chain [Fin 0] ! 0) (mpt_in demo_chain [Fin 0] ! 0)"
  by (simp add: mpt_out_def mpt_in_def pmt_out_def demo_chain_def ser_sub_def ser_mul_c_def
      ser_add_c_def c_mul_ser_def ser_pow2_def ser_div_c_def zero_negatives_def nsub_def)

section \<open>The weather frame\<close>

text \<open>
  Claim C2, as amended. \<^verbatim>\<open>get_effective_irradiance\<close> replaces the index of
  the caller's weather frame: when the zone name is known, the index is
  afterwards aware in that zone, localized when it was naive and converted
  otherwise; when the name is unknown the call raises UnknownTimeZoneError and
  the frame is untouched. Whatever the outcome, every column and every plain
  attribute of the frame other than \<^verbatim>\<open>albedo\<close> is afterwards what it was,
  and so is the number of rows.
\<close>

theorem weather_frame_effect:
  assumes "get_effective_irradiance tzdb le rb rf self w u = (err, self', w')"
    and "c \<noteq> ''albedo''"
  shows "columns w' c = columns w c \<and> attrs w' c = attrs w c \<and>
         length (stamps (index w')) = length (stamps (index w)) \<and>
         (case tzdb (''Etc/GMT+'' @ str_int (- u)) of
            None \<Rightarrow> err = Some UnknownTimeZoneError \<and> w' = w
          | Some off \<Rightarrow>
              index w' =
                \<lparr>stamps = (if tz (index w) = None
                            then map (\<lambda>s. s - off) (stamps (index w))
                            else stamps (index w)),
                 tz = Some (''Etc/GMT+'' @ str_int (- u))\<rparr>)"
proof -
  obtain e where p: "prepare_weather tzdb self w u = (e, w')"
    using assms(1) gei_weather [of tzdb le rb rf self w u]
    by (cases "prepare_weather tzdb self w u") simp
  have "err = Some UnknownTimeZoneError" if "tzdb (''Etc/GMT+'' @ str_int (- u)) = None"
    using assms(1) prepare_weather_frame(3) [OF p] that
    by (simp add: get_effective_irradiance_def p)
  then show ?thesis
    using prepare_weather_frame [OF p] assms(2)
    by (auto split: option.splits)
qed

theorem weather_frame_effect_witness:
  "''surface_albedo'' \<noteq> ''albedo'' \<and>
   albedo (system rooftop_chain) = Some (3 / 10) \<and>
   columns demo_weather ''surface_albedo'' = Some [Fin (1 / 5), Fin (1 / 5)] \<and>
   fst (get_effective_irradiance demo_tzdb demo_lib_eff demo_report_back demo_report_front
          rooftop_chain demo_weather (- 7)) = None \<and>
   columns (snd (snd (get_effective_irradiance demo_tzdb demo_lib_eff demo_report_back
           demo_report_front rooftop_chain demo_weather (- 7)))) ''surface_albedo''
     = Some [Fin (1 / 5), Fin (1 / 5)] \<and>
   length (stamps (index (snd (snd (get_effective_irradiance demo_tzdb demo_lib_eff
           demo_report_back demo_report_front rooftop_chain demo_weather (- 7)))))) = 2 \<and>
   index (snd (snd (get_effective_irradiance demo_tzdb demo_lib_eff demo_report_back
           demo_report_front rooftop_chain demo_weather (- 7))))
     = \<lparr>stamps = [420, 480], tz = Some ''Etc/GMT+7''\<rparr> \<and>
   demo_tzdb ''Etc/GMT+-5'' = None \<and>
   fst (get_effective_irradiance demo_tzdb demo_lib_eff demo_report_back demo_report_front
          rooftop_chain demo_weather 5) = Some UnknownTimeZoneError \<and>
   snd (snd (get_effective_irradiance demo_tzdb demo_lib_eff demo_report_back
           demo_report_front rooftop_chain demo_weather 5)) = demo_weather"
proof -
  have r: "fst (get_effective_irradiance demo_tzdb demo_lib_eff demo_report_back
          demo_report_front rooftop_chain demo_weather (- 7)) = None"
    "albedo (system rooftop_chain) = Some (3 / 10)"
    by (simp_all add: demo_run_defs rooftop_chain_def)
  show ?thesis
    using weather_frame_effect [OF gei_collapse, of "''surface_albedo''" demo_tzdb
        demo_lib_eff demo_report_back demo_report_front rooftop_chain demo_weather "- 7"]
      weather_frame_effect [OF gei_collapse, of "''surface_albedo''" demo_tzdb
        demo_lib_eff demo_report_back demo_report_front rooftop_chain demo_weather 5] r
    by (simp add: demo_tzdb_def demo_weather_def str_int_7 str_int_minus_5)
qed

text \<open>
  The claim as written fails on a frame with a naive index: the run succeeds
  and leaves the frame with an aware index.
\<close>

theorem weather_index_counterexample:
  "fst (get_effective_irradiance demo_tzdb demo_lib_eff demo_report_back demo_report_front
           demo_chain demo_weather (- 7)) = None \<and>
   index demo_weather = \<lparr>stamps = [0, 60], tz = None\<rparr> \<and>
   index (snd (snd (get_effective_irradiance demo_tzdb demo_lib_eff demo_report_back
           demo_report_front demo_chain demo_weather (- 7))))
     = \<lparr>stamps = [420, 480], tz = Some ''Etc/GMT+7''\<rparr> \<and>
   snd (snd (get_effective_irradiance demo_tzdb demo_lib_eff demo_report_back
           demo_report_front demo_chain demo_weather (- 7))) \<noteq> demo_weather"
  by (simp add: get_effective_irradiance_def prepare_weather_def tz_localize_def demo_tzdb_def
    demo_weather_def str_int_7 demo_chain_def demo_system_def get_system_def Let_def
    demo_lib_eff_def demo_report_back_def demo_report_front_def)

section \<open>Combining front and back irradiance\<close>

text \<open>
  Claim C5. After a successful run with a bifaciality of zero, on Series that
  share the index of the weather frame and a back-side report without infinite
  samples, the combined Series is the frontside Series itself (the library's
  effective irradiance when the system backtracks, the front value of the
  view-factor engine otherwise), and the soiled Series is the frontside Series
  times one minus the soiling column.
\<close>

theorem bifaciality_zero:
  assumes "get_effective_irradiance tzdb le rb rf self w u = (None, self', w')"
    and "module_parameters (system self) ''bifaciality'' = Some 0"
    and "length le = length (stamps (index w))"
    and "\<forall>x\<in>set rb. x \<noteq> PInf \<and> x \<noteq> NInf"
  shows "effective_irradiance_bifacial self' =
           (if backtrack (system self) then effective_irradiance self'
            else front_irradiance self') \<and>
         effective_irradiance self' = Some (fillna0 le) \<and>
         front_irradiance self' = Some (fillna0 rf) \<and>
         effective_irradiance_soiled self' =
           map_option
             (\<lambda>s. ser_mul (if backtrack (system self) then fillna0 le else fillna0 rf)
                     (c_sub_ser 1 s))
             (columns w ''soiling'')"
proof -
  from gei_success [OF assms(1)] obtain bif s where
    g: "module_parameters (system self) ''bifaciality'' = Some bif"
      "columns w' ''soiling'' = Some s"
      "prepare_weather tzdb self w u = (None, w')"
      "length rb = length (stamps (index w'))"
      "length rf = length (stamps (index w'))"
      "effective_irradiance self' = Some (fillna0 le)"
      "front_irradiance self' = Some (fillna0 rf)"
      "effective_irradiance_bifacial self' =
         Some (ser_add (if backtrack (system self) then fillna0 le else fillna0 rf)
                 (ser_mul_c (fillna0 rb) (bif * (1 - bifacial_losses self))))"
      "effective_irradiance_soiled self' =
         Some (ser_mul
                 (ser_add (if backtrack (system self) then fillna0 le else fillna0 rf)
                    (ser_mul_c (fillna0 rb) (bif * (1 - bifacial_losses self))))
                 (c_sub_ser 1 s))"
    by blast
  have bif: "bif = 0" using g(1) assms(2) by simp
  have n: "length (stamps (index w')) = length (stamps (index w))"
    by (rule prepare_weather_frame(2) [OF g(3)])
  have s: "columns w ''soiling'' = Some s"
    using prepare_weather_frame(1) [OF g(3)] g(2) by simp
  have "length (if backtrack (system self) then fillna0 le else fillna0 rf) \<le> length rb"
    using g(4,5) n assms(3) by simp
  then have "ser_add (if backtrack (system self) then fillna0 le else fillna0 rf)
        (ser_mul_c (fillna0 rb) 0)
      = (if backtrack (system self) then fillna0 le else fillna0 rf)"
    using assms(4) by (rule no_back_term)
  then show ?thesis
    using g(6-9) bif s by simp
qed

theorem bifaciality_zero_witness:
  "module_parameters (system monofacial_chain) ''bifaciality'' = Some 0 \<and>
   length demo_lib_eff = length (stamps (index demo_weather)) \<and>
   backtrack (system monofacial_chain) \<and>
   fst (get_effective_irradiance demo_tzdb demo_lib_eff demo_report_back demo_report_front
          monofacial_chain demo_weather (- 7)) = None \<and>
   effective_irradiance_bifacial
     (fst (snd (get_effective_irradiance demo_tzdb demo_lib_eff demo_report_back
                  demo_report_front monofacial_chain demo_weather (- 7))))
     = Some [Fin 0, Fin 500] \<and>
   effective_irradiance_soiled
     (fst (snd (get_effective_irradiance demo_tzdb demo_lib_eff demo_report_back
                  demo_report_front monofacial_chain demo_weather (- 7))))
     = Some [Fin 0, Fin 490]"
proof -
  have r: "fst (get_effective_irradiance demo_tzdb demo_lib_eff demo_report_back
          demo_report_front monofacial_chain demo_weather (- 7)) = None"
    by (simp add: demo_run_defs monofacial_chain_def)
  have h: "module_parameters (system monofacial_chain) ''bifaciality'' = Some 0"
    "length demo_lib_eff = length (stamps (index demo_weather))"
    "\<forall>x\<in>set demo_report_back. x \<noteq> PInf \<and> x \<noteq> NInf"
    "backtrack (system monofacial_chain)"
    by (simp_all add: monofacial_chain_def demo_chain_def demo_system_def get_system_def
        demo_lib_eff_def demo_weather_def demo_report_back_def)
  have v: "fillna0 demo_lib_eff = [Fin 0, Fin 500]"
    "columns demo_weather ''soiling'' = Some [Fin (1 / 50), Fin (1 / 50)]"
    "ser_mul [Fin 0, Fin 500] (c_sub_ser 1 [Fin (1 / 50), Fin (1 / 50)]) = [Fin 0, Fin 490]"
    by (simp_all add: demo_lib_eff_def fillna0_def demo_weather_def ser_mul_def c_sub_ser_def)
  have run: "get_effective_irradiance demo_tzdb demo_lib_eff demo_report_back
      demo_report_front monofacial_chain demo_weather (- 7) =
      (None,
       fst (snd (get_effective_irradiance demo_tzdb demo_lib_eff demo_report_back
                   demo_report_front monofacial_chain demo_weather (- 7))),
       snd (snd (get_effective_irradiance demo_tzdb demo_lib_eff demo_report_back
                   demo_report_front monofacial_chain demo_weather (- 7))))"
    using r by (simp add: prod_eq_iff)
  show ?thesis
    using bifaciality_zero [OF run h(1-3)] r h(1,2,4) v
    by simp
qed

text \<open>
  Claim C8. After a successful run the combined Series holds, at a timestep
  with finite frontside sample \<open>f\<close> and finite back-side sample \<open>k\<close>, the value
  \<open>f + k * bifaciality * (1 - bifacial_losses)\<close>, where the frontside Series
  is the library's effective irradiance when the system backtracks and the
  front value of the view-factor engine when it does not.
\<close>

theorem bifacial_combination:
  assumes "get_effective_irradiance tzdb le rb rf self w u = (None, self', w')"
    and "module_parameters (system self) ''bifaciality'' = Some bifaciality"
    and "length le = length (stamps (index w))"
    and "t < length (stamps (index w))"
    and "effective_irradiance self' = Some eff"
    and "front_irradiance self' = Some front"
    and "back_irradiance self' = Some back"
    and "(if backtrack (system self) then eff else front) ! t = Fin f"
    and "back ! t = Fin k"
  shows "map_option (\<lambda>c. c ! t) (effective_irradiance_bifacial self') =
           Some (Fin (f + k * bifaciality * (1 - bifacial_losses self))) \<and>
         eff = fillna0 le \<and> front = fillna0 rf \<and> back = fillna0 rb"
proof -
  from gei_success [OF assms(1)] obtain bif s where
    g: "module_parameters (system self) ''bifaciality'' = Some bif"
      "prepare_weather tzdb self w u = (None, w')"
      "length rb = length (stamps (index w'))"
      "length rf = length (stamps (index w'))"
      "effective_irradiance self' = Some (fillna0 le)"
      "back_irradiance self' = Some (fillna0 rb)"
      "front_irradiance self' = Some (fillna0 rf)"
      "effective_irradiance_bifacial self' =
         Some (ser_add (if backtrack (system self) then fillna0 le else fillna0 rf)
                 (ser_mul_c (fillna0 rb) (bif * (1 - bifacial_losses self))))"
    by blast
  have bif: "bif = bifaciality" using g(1) assms(2) by simp
  have e: "eff = fillna0 le" "front = fillna0 rf" "back = fillna0 rb"
    using g(5-7) assms(5-7) by simp_all
  have n: "length (stamps (index w')) = length (stamps (index w))"
    by (rule prepare_weather_frame(2) [OF g(2)])
  have l: "t < length (if backtrack (system self) then fillna0 le else fillna0 rf)"
    "t < length (fillna0 rb)"
    using g(3,4) n assms(3,4) by simp_all
  have "ser_add (if backtrack (system self) then fillna0 le else fillna0 rf)
          (ser_mul_c (fillna0 rb) (bif * (1 - bifacial_losses self))) ! t
        = nadd (Fin f) (nmul (Fin k) (Fin (bif * (1 - bifacial_losses self))))"
    using l assms(8,9) e
    by (simp add: nth_ser_ops2 nth_ser_ops(4) split: if_splits)
  then show ?thesis
    using g(8) bif e by (simp add: mult.assoc)
qed

theorem bifacial_combination_witness:
  "backtrack (system demo_chain) \<and>
   fst (get_effective_irradiance demo_tzdb demo_lib_eff demo_report_back demo_report_front
          demo_chain demo_weather (- 7)) = None \<and>
   map_option (\<lambda>c. c ! 1)
     (effective_irradiance_bifacial
        (fst (snd (get_effective_irradiance demo_tzdb demo_lib_eff demo_report_back
                     demo_report_front demo_chain demo_weather (- 7)))))
     = Some (Fin (500 + 80 * (7 / 10) * (1 - 1 / 10))) \<and>
   \<not> backtrack (system fixed_chain) \<and>
   fst (get_effective_irradiance demo_tzdb demo_lib_eff demo_report_back demo_report_front
          fixed_chain demo_weather (- 7)) = None \<and>
   map_option (\<lambda>c. c ! 1)
     (effective_irradiance_bifacial
        (fst (snd (get_effective_irradiance demo_tzdb demo_lib_eff demo_report_back
                     demo_report_front fixed_chain demo_weather (- 7)))))
     = Some (Fin (600 + 80 * (7 / 10) * (1 - 1 / 10)))"
proof -
  have r: "fst (get_effective_irradiance demo_tzdb demo_lib_eff demo_report_back
          demo_report_front demo_chain demo_weather (- 7)) = None"
    "fst (get_effective_irradiance demo_tzdb demo_lib_eff demo_report_back
          demo_report_front fixed_chain demo_weather (- 7)) = None"
    by (simp_all add: demo_run_defs fixed_chain_def)
  have a: "effective_irradiance (fst (snd (get_effective_irradiance demo_tzdb demo_lib_eff
          demo_report_back demo_report_front demo_chain demo_weather (- 7))))
        = Some [Fin 0, Fin 500]"
    "front_irradiance (fst (snd (get_effective_irradiance demo_tzdb demo_lib_eff
          demo_report_back demo_report_front demo_chain demo_weather (- 7))))
        = Some [Fin 0, Fin 600]"
    "back_irradiance (fst (snd (get_effective_irradiance demo_tzdb demo_lib_eff
          demo_report_back demo_report_front demo_chain demo_weather (- 7))))
        = Some [Fin 0, Fin 80]"
    "effective_irradiance (fst (snd (get_effective_irradiance demo_tzdb demo_lib_eff
          demo_report_back demo_report_front fixed_chain demo_weather (- 7))))
        = Some [Fin 0, Fin 500]"
    "front_irradiance (fst (snd (get_effective_irradiance demo_tzdb demo_lib_eff
          demo_report_back demo_report_front fixed_chain demo_weather (- 7))))
        = Some [Fin 0, Fin 600]"
    "back_irradiance (fst (snd (get_effective_irradiance demo_tzdb demo_lib_eff
          demo_report_back demo_report_front fixed_chain demo_weather (- 7))))
        = Some [Fin 0, Fin 80]"
    by (simp_all add: demo_run_defs fixed_chain_def)
  have h: "module_parameters (system demo_chain) ''bifaciality'' = Some (7 / 10)"
    "module_parameters (system fixed_chain) ''bifaciality'' = Some (7 / 10)"
    "length demo_lib_eff = length (stamps (index demo_weather))"
    "1 < length (stamps (index demo_weather))"
    "backtrack (system demo_chain)" "\<not> backtrack (system fixed_chain)"
    "bifacial_losses demo_chain = 1 / 10" "bifacial_losses fixed_chain = 1 / 10"
    by (simp_all add: fixed_chain_def demo_chain_def demo_system_def get_system_def
        demo_lib_eff_def demo_weather_def)
  have i: "(if backtrack (system demo_chain) then [Fin 0, Fin 500] else [Fin 0, Fin 600]) ! 1
        = Fin 500"
    "(if backtrack (system fixed_chain) then [Fin 0, Fin 500] else [Fin 0, Fin 600]) ! 1
        = Fin 600"
    "[Fin 0, Fin 80] ! 1 = Fin 80"
    using h(5,6) by simp_all
  show ?thesis
    using bifacial_combination [OF gei_run [OF r(1)] h(1,3,4) a(1-3) i(1,3)]
      bifacial_combination [OF gei_run [OF r(2)] h(2,3,4) a(4-6) i(2,3)] r h(5-8)
    by simp
qed

text \<open>
  Claim C10. A system built by \<^verbatim>\<open>get_system\<close> with racking \<^verbatim>\<open>rooftop\<close> has
  a bifaciality of zero and does not backtrack, whatever module parameters were
  passed in, and after a successful run on it the combined Series is the front
  value of the view-factor engine, with no share of the back side.
\<close>

theorem rooftop_no_backside:
  assumes "system self =
      get_system lib_albedo ''rooftop'' axis_height' collector_width' axis_azimuth' gcr'
        module_parameters' temperature_model_parameters' axis_tilt' max_angle' backtrack'
        surface_tilt' surface_azimuth' albedo'"
    and "get_effective_irradiance tzdb le rb rf self w u = (None, self', w')"
    and "\<forall>x\<in>set rb. x \<noteq> PInf \<and> x \<noteq> NInf"
  shows "module_parameters (system self) ''bifaciality'' = Some 0 \<and>
         \<not> backtrack (system self) \<and>
         effective_irradiance_bifacial self' = front_irradiance self' \<and>
         front_irradiance self' = Some (fillna0 rf)"
proof -
  have s: "module_parameters (system self) ''bifaciality'' = Some 0"
    "\<not> backtrack (system self)"
    using assms(1) by (simp_all add: get_system_def Let_def)
  from gei_success [OF assms(2)] obtain bif where
    g: "module_parameters (system self) ''bifaciality'' = Some bif"
      "length rb = length (stamps (index w'))"
      "length rf = length (stamps (index w'))"
      "front_irradiance self' = Some (fillna0 rf)"
      "effective_irradiance_bifacial self' =
         Some (ser_add (if backtrack (system self) then fillna0 le else fillna0 rf)
                 (ser_mul_c (fillna0 rb) (bif * (1 - bifacial_losses self))))"
    by blast
  have bif: "bif = 0" using g(1) s(1) by simp
  have "length (fillna0 rf) \<le> length rb"
    using g(2,3) by simp
  then have "ser_add (fillna0 rf) (ser_mul_c (fillna0 rb) 0) = fillna0 rf"
    using assms(3) by (rule no_back_term)
  then show ?thesis
    using g(4,5) bif s by simp
qed

theorem rooftop_no_backside_witness:
  "module_parameters (system rooftop_chain) ''bifaciality'' = Some 0 \<and>
   fst (get_effective_irradiance demo_tzdb demo_lib_eff demo_report_back demo_report_front
          rooftop_chain demo_weather (- 7)) = None \<and>
   effective_irradiance_bifacial
     (fst (snd (get_effective_irradiance demo_tzdb demo_lib_eff demo_report_back
                  demo_report_front rooftop_chain demo_weather (- 7))))
     = Some [Fin 0, Fin 600]"
proof -
  have r: "fst (get_effective_irradiance demo_tzdb demo_lib_eff demo_report_back
          demo_report_front rooftop_chain demo_weather (- 7)) = None"
    by (simp add: demo_run_defs rooftop_chain_def)
  have h: "system rooftop_chain =
      get_system None ''rooftop'' 10 2 180 (1 / 2)
         [''pdc0'' \<mapsto> 1000, ''bifaciality'' \<mapsto> 7 / 10, ''efficiency'' \<mapsto> 1 / 5]
         Map.empty 0 0 False 10 180 (3 / 10)"
    "\<forall>x\<in>set demo_report_back. x \<noteq> PInf \<and> x \<noteq> NInf"
    by (simp_all add: rooftop_chain_def demo_report_back_def)
  have v: "fillna0 demo_report_front = [Fin 0, Fin 600]"
    by (simp add: demo_report_front_def fillna0_def)
  show ?thesis
    using rooftop_no_backside [OF h(1) gei_run [OF r] h(2)] r v by simp
qed

section \<open>The metrics\<close>

text \<open>
  Claim C3, as amended. The DC capacity and the module efficiency are plain
  Python numbers. When the attributes that \<^verbatim>\<open>get_results\<close> reads are present,
  it raises ZeroDivisionError exactly when the module efficiency is zero; it has
  then assigned the energy, the net capacity factor and the energy yield, and
  leaves the performance ratio as it was. A DC capacity of zero with an
  efficiency that is not zero raises nothing: the call returns, and the energy
  yield and the performance ratio it assigns are not finite.
\<close>

theorem division_fault:
  assumes "plant self = Some p" and "effective_irradiance self = Some e"
    and "module_parameters (system self) ''efficiency'' = Some efficiency"
  shows "let a = ndiv (nmul (nsub (ser_sum (output_plant p)) (ser_sum (losses_plant p)))
                            (Fin (time_step self))) (Fin 60)
         in if efficiency = 0
            then fst (get_results self) = Some ZeroDivisionError \<and>
                 aep (snd (get_results self)) = Some a \<and>
                 ncf (snd (get_results self)) =
                   Some (ndiv (ndiv a (Fin (poi_capacity self))) (Fin 8760)) \<and>
                 energy_yield (snd (get_results self)) =
                   Some (ndiv a (Fin (dc_capacity self))) \<and>
                 pr (snd (get_results self)) = pr self
            else if dc_capacity self = 0
            then fst (get_results self) = None \<and>
                 nonfinite (energy_yield (snd (get_results self))) \<and>
                 nonfinite (pr (snd (get_results self)))
            else fst (get_results self) = None"
proof (cases "efficiency = 0")
  case True
  then show ?thesis
    using get_results_pr(1,2) [OF assms True] get_results_assigned [OF assms(1)]
    by (simp add: Let_def)
next
  case False
  note ok = get_results_pr(3) [OF assms False]
  show ?thesis
  proof (cases "dc_capacity self = 0")
    case True
    have "\<not> is_fin (ndiv a (nmul s (Fin 0)))" for a s
      using nmul_zero_cases [of s] ndiv_by_zero_nonfinite [of a] ndiv_by_nan_nonfinite [of a]
      by auto
    then have "nonfinite (pr (snd (get_results self)))"
      using get_results_pr(4) [OF assms False] True
      by (simp add: nonfinite_def one_minus_nonfinite)
    moreover have "nonfinite (energy_yield (snd (get_results self)))"
      using get_results_assigned(3) [OF assms(1)] True
      by (simp add: nonfinite_def ndiv_by_zero_nonfinite)
    ultimately show ?thesis using False True ok by (simp add: Let_def)
  next
    case nz: False
    with False ok show ?thesis by (simp add: Let_def)
  qed
qed

theorem division_fault_witness:
  "plant zero_efficiency_chain
     = Some \<lparr>output_plant = [Fin 100, Fin 100], losses_plant = [Fin 0, Fin 0]\<rparr> \<and>
   effective_irradiance zero_efficiency_chain = Some [Fin 0, Fin 500] \<and>
   module_parameters (system zero_efficiency_chain) ''efficiency'' = Some 0 \<and>
   fst (get_results zero_efficiency_chain) = Some ZeroDivisionError \<and>
   aep (snd (get_results zero_efficiency_chain)) = Some (Fin 200) \<and>
   ncf (snd (get_results zero_efficiency_chain)) = Some (Fin (200 / 800 / 8760)) \<and>
   energy_yield (snd (get_results zero_efficiency_chain)) = Some (Fin (200 / 1000)) \<and>
   pr (snd (get_results zero_efficiency_chain)) = None"
proof -
  have h: "plant zero_efficiency_chain
       = Some \<lparr>output_plant = [Fin 100, Fin 100], losses_plant = [Fin 0, Fin 0]\<rparr>"
    "effective_irradiance zero_efficiency_chain = Some [Fin 0, Fin 500]"
    "module_parameters (system zero_efficiency_chain) ''efficiency'' = Some 0"
    by (simp_all add: zero_efficiency_chain_def demo_chain_def)
  have v: "pr zero_efficiency_chain = None" "time_step zero_efficiency_chain = 60"
    "poi_capacity zero_efficiency_chain = 800" "dc_capacity zero_efficiency_chain = 1000"
    by (simp_all add: zero_efficiency_chain_def demo_chain_def)
  have s: "ser_sum [Fin 100, Fin 100] = Fin 200" "ser_sum [Fin 0, Fin 0] = Fin 0"
    by (simp_all add: ser_sum_def)
  show ?thesis
    using division_fault [OF h] h v s by (simp add: Let_def)
qed

text \<open>
  The claim as written fails for a DC capacity of zero: the call returns, with
  an infinite energy yield and an infinite performance ratio.
\<close>

theorem zero_dc_capacity_counterexample:
  "dc_capacity zero_dc_chain = 0 \<and>
   module_parameters (system zero_dc_chain) ''efficiency'' = Some (1 / 5) \<and>
   fst (get_results zero_dc_chain) = None \<and>
   aep (snd (get_results zero_dc_chain)) = Some (Fin 200) \<and>
   energy_yield (snd (get_results zero_dc_chain)) = Some PInf \<and>
   pr (snd (get_results zero_dc_chain)) = Some NInf"
proof -
  have s: "ser_sum [Fin 100, Fin 100] = Fin 200" "ser_sum [Fin 0, Fin 0] = Fin 0"
    "ser_sum [Fin 0, Fin 500] = Fin 500"
    by (simp_all add: ser_sum_def)
  show ?thesis
    by (simp add: get_results_def zero_dc_chain_def demo_chain_def demo_system_def
        get_system_def Let_def py_div_def s nsub_def)
qed

text \<open>
  Claim C4. The net capacity factor is the energy divided by the POI capacity
  and by 8760. For finite plant samples and a POI capacity that is not zero it
  is the number \<open>aep / poi_capacity / 8760\<close>, and it does not change when the
  plant Series is made longer by any number of zero samples: the length of the
  Series plays no part.
\<close>

theorem ncf_fixed_year:
  assumes "plant self = Some p"
    and "output_plant p = map Fin outputs" and "losses_plant p = map Fin losses"
    and "poi_capacity self \<noteq> 0"
  shows "ncf (snd (get_results self)) =
           map_option (\<lambda>a. ndiv (ndiv a (Fin (poi_capacity self))) (Fin 8760))
             (aep (snd (get_results self))) \<and>
         ncf (snd (get_results self)) =
           Some (Fin (spec_ncf (spec_aep outputs losses (time_step self))
                        (poi_capacity self))) \<and>
         ncf (snd (get_results (self\<lparr>plant := Some
                \<lparr>output_plant = output_plant p @ replicate k (Fin 0),
                 losses_plant = losses_plant p @ replicate k (Fin 0)\<rparr>\<rparr>)))
           = ncf (snd (get_results self))"
proof -
  have g: "ncf (snd (get_results self)) =
      map_option (\<lambda>a. ndiv (ndiv a (Fin (poi_capacity self))) (Fin 8760))
        (aep (snd (get_results self)))"
    using get_results_assigned(1,2) [OF assms(1)] by simp
  have "ncf (snd (get_results self)) =
      Some (ndiv (ndiv (Fin (spec_aep outputs losses (time_step self)))
                       (Fin (poi_capacity self))) (Fin 8760))"
    using get_results_assigned(2) [OF assms(1)] assms(2,3) by (simp add: aep_fin)
  then have a: "ncf (snd (get_results self)) =
      Some (Fin (spec_ncf (spec_aep outputs losses (time_step self)) (poi_capacity self)))"
    using assms(4) by (simp add: spec_ncf_def)
  have "ncf (snd (get_results (self\<lparr>plant := Some
                \<lparr>output_plant = output_plant p @ replicate k (Fin 0),
                 losses_plant = losses_plant p @ replicate k (Fin 0)\<rparr>\<rparr>)))
           = ncf (snd (get_results self))"
    using get_results_assigned(2) [OF assms(1)]
      get_results_assigned(2) [of "self\<lparr>plant := Some
                \<lparr>output_plant = output_plant p @ replicate k (Fin 0),
                 losses_plant = losses_plant p @ replicate k (Fin 0)\<rparr>\<rparr>"
         "\<lparr>output_plant = output_plant p @ replicate k (Fin 0),
                 losses_plant = losses_plant p @ replicate k (Fin 0)\<rparr>"]
    by (simp add: ser_sum_append_zeros)
  with g a show ?thesis by simp
qed

theorem ncf_fixed_year_witness:
  "plant demo_chain = Some \<lparr>output_plant = map Fin [100, 100], losses_plant = map Fin [0, 0]\<rparr> \<and>
   poi_capacity demo_chain \<noteq> 0 \<and>
   ncf (snd (get_results demo_chain)) = Some (Fin (200 / 800 / 8760)) \<and>
   ncf (snd (get_results (demo_chain\<lparr>plant := Some
          \<lparr>output_plant = [Fin 100, Fin 100, Fin 0, Fin 0, Fin 0],
           losses_plant = [Fin 0, Fin 0, Fin 0, Fin 0, Fin 0]\<rparr>\<rparr>)))
     = Some (Fin (200 / 800 / 8760))"
proof -
  have h: "output_plant \<lparr>output_plant = map Fin [100, 100], losses_plant = map Fin [0, 0]\<rparr>
       = map Fin [100, 100]"
    "losses_plant \<lparr>output_plant = map Fin [100, 100], losses_plant = map Fin [0, 0]\<rparr>
       = map Fin [0, 0]"
    "poi_capacity demo_chain \<noteq> 0"
    by (simp_all add: demo_chain_def)
  have v: "spec_ncf (spec_aep [100, 100] [0, 0] (time_step demo_chain)) (poi_capacity demo_chain)
       = 200 / 800 / 8760"
    by (simp add: spec_ncf_def spec_aep_def demo_chain_def)
  show ?thesis
    using ncf_fixed_year [OF demo_plant(1) h, of 3, THEN conjunct2] h(3) demo_plant(1) v
    by (simp add: numeral_3_eq_3)
qed

text \<open>
  Claim C9. For finite samples, an efficiency that is not zero and a reference
  energy that is not zero, \<^verbatim>\<open>get_results\<close> returns and the performance ratio
  is one minus the energy over the sum of the frontside effective irradiance
  times \<open>time_step / 60\<close> times \<open>dc_capacity / efficiency / 1000\<close>. The
  bifacial and the soiled Series play no part: replacing them changes nothing.
\<close>

theorem pr_frontside:
  assumes "plant self = Some p"
    and "output_plant p = map Fin outputs" and "losses_plant p = map Fin losses"
    and "effective_irradiance self = Some (map Fin frontside)"
    and "module_parameters (system self) ''efficiency'' = Some efficiency"
    and "efficiency \<noteq> 0"
    and "sum_list frontside * time_step self / 60
           * (dc_capacity self / efficiency / 1000) \<noteq> 0"
  shows "fst (get_results self) = None \<and>
         pr (snd (get_results self)) =
           Some (Fin (spec_pr (spec_aep outputs losses (time_step self)) frontside
                        (time_step self) (dc_capacity self) efficiency)) \<and>
         pr (snd (get_results (self\<lparr>effective_irradiance_bifacial := b,
                                    effective_irradiance_soiled := s\<rparr>)))
           = pr (snd (get_results self))"
proof -
  have a: "pr (snd (get_results self)) =
      Some (Fin (spec_pr (spec_aep outputs losses (time_step self)) frontside
                   (time_step self) (dc_capacity self) efficiency))"
    using get_results_pr(4) [OF assms(1,4,5,6)] assms(2,3,7)
    by (simp add: ser_sum_map_Fin spec_pr_def spec_aep_def)
  have "pr (snd (get_results (self\<lparr>effective_irradiance_bifacial := b,
                                    effective_irradiance_soiled := s\<rparr>)))
           = pr (snd (get_results self))"
    using get_results_pr(4) [OF assms(1,4,5,6)]
      get_results_pr(4) [of "self\<lparr>effective_irradiance_bifacial := b,
                                    effective_irradiance_soiled := s\<rparr>" p "map Fin frontside"
          efficiency] assms(1,4,5,6)
    by simp
  with a get_results_pr(3) [OF assms(1,4,5,6)] show ?thesis by simp
qed

theorem pr_frontside_witness:
  "plant demo_chain = Some \<lparr>output_plant = map Fin [100, 100], losses_plant = map Fin [0, 0]\<rparr> \<and>
   effective_irradiance demo_chain = Some (map Fin [0, 500]) \<and>
   module_parameters (system demo_chain) ''efficiency'' = Some (1 / 5) \<and>
   fst (get_results demo_chain) = None \<and>
   pr (snd (get_results demo_chain)) = Some (Fin (1 - 200 / 2500)) \<and>
   pr (snd (get_results (demo_chain\<lparr>effective_irradiance_bifacial := Some [Fin 7, Fin 9],
                                     effective_irradiance_soiled := Some [Fin 6, Fin 8]\<rparr>)))
     = Some (Fin (1 - 200 / 2500))"
proof -
  have h: "output_plant \<lparr>output_plant = map Fin [100, 100], losses_plant = map Fin [0, 0]\<rparr>
       = map Fin [100, 100]"
    "losses_plant \<lparr>output_plant = map Fin [100, 100], losses_plant = map Fin [0, 0]\<rparr>
       = map Fin [0, 0]"
    by simp_all
  have n: "(1 / 5 :: real) \<noteq> 0"
    "sum_list [0, 500] * time_step demo_chain / 60
       * (dc_capacity demo_chain / (1 / 5) / 1000) \<noteq> 0"
    by (simp_all add: demo_chain_def)
  have v: "spec_pr (spec_aep [100, 100] [0, 0] (time_step demo_chain)) [0, 500]
        (time_step demo_chain) (dc_capacity demo_chain) (1 / 5) = 1 - 200 / 2500"
    by (simp add: spec_pr_def spec_aep_def demo_chain_def)
  show ?thesis
    using pr_frontside [OF demo_plant(1) h demo_plant(2,3) n,
        where b = "Some [Fin 7, Fin 9]" and s = "Some [Fin 6, Fin 8]"] demo_plant v
    by simp
qed

end
